theory Spec2Isabelle
  imports Main "HOL-Library.AList"
begin

section \<open>Data model of the Elasticsearch service (class \<open>ES\<close>)\<close>

text \<open>
  Errors the JavaScript code raises, as values. \<open>CodedError code msg\<close> and
  \<open>UserInputError msg\<close> are the two client-caused (400-class) errors of the source,
  \<open>Error msg\<close> is \<open>new Error(msg)\<close>, \<open>TypeError\<close> is what the JavaScript runtime
  raises on a property access on \<open>undefined\<close> (its text is the runtime's own), and
  \<open>ClientError msg\<close> is a rejection of the engine client that the code lets through
  without wrapping it.
\<close>

datatype error =
    CodedError nat string
  | UserInputError string
  | Error string
  | TypeError string
  | ClientError string

text \<open>One entry of \<open>config.indices\<close>: \<open>{ index, type }\<close>.\<close>

record index_cfg =
  cfg_index :: string
  cfg_type :: string

text \<open>
  \<open>config.esConfig\<close>. \<open>indices\<close> and \<open>configIndex\<close> may be missing
  (\<open>None\<close> is JavaScript's \<open>undefined\<close>).
\<close>

record es_config =
  host :: string
  indices :: "index_cfg list option"
  configIndex :: "string option"

subsection \<open>JavaScript objects\<close>

text \<open>
  A plain JavaScript object is the association list of its own properties, in the
  order \<open>Object.keys\<close> lists them (\<open>map fst\<close>). Every such object inherits from
  \<open>Object.prototype\<close>, whose property names are these.
\<close>

definition object_prototype_keys :: "string list" where
  "object_prototype_keys =
     [''constructor'', ''__defineGetter__'', ''__defineSetter__'', ''hasOwnProperty'',
      ''__lookupGetter__'', ''__lookupSetter__'', ''isPrototypeOf'', ''propertyIsEnumerable'',
      ''toString'', ''valueOf'', ''__proto__'', ''toLocaleString'']"

text \<open>
  The read \<open>obj[k]\<close>: an own property, else the member of \<open>Object.prototype\<close> of
  that name (a built-in function, or \<open>Object.prototype\<close> itself for \<open>__proto__\<close>:
  truthy, with no enumerable key), else \<open>undefined\<close>.
\<close>

datatype 'v js_prop = Own 'v | Inherited string | Absent

definition js_get :: "(string \<times> 'v) list \<Rightarrow> string \<Rightarrow> 'v js_prop" where
  "js_get obj k =
     (case map_of obj k of
        Some v \<Rightarrow> Own v
      | None \<Rightarrow> (if k \<in> set object_prototype_keys then Inherited k else Absent))"

text \<open>
  Keys that are array indices (canonical decimal numerals below \<open>2^32 - 1\<close>) are
  listed first, in ascending order; the other keys follow in the order they were
  created.
\<close>

definition is_digit :: "char \<Rightarrow> bool" where
  "is_digit c = (c \<in> set ''0123456789'')"

definition digit_value :: "char \<Rightarrow> nat" where
  "digit_value c = length (takeWhile (\<lambda>d. d \<noteq> c) ''0123456789'')"

definition array_index :: "string \<Rightarrow> nat option" where
  "array_index k =
     (let n = foldl (\<lambda>a c. 10 * a + digit_value c) 0 k in
      if k \<noteq> [] \<and> list_all is_digit k \<and> (k = ''0'' \<or> hd k \<noteq> CHR ''0'') \<and> n < 4294967295
      then Some n else None)"

fun insert_index :: "nat \<Rightarrow> string \<Rightarrow> 'v \<Rightarrow> (string \<times> 'v) list \<Rightarrow> (string \<times> 'v) list" where
  "insert_index n k v [] = [(k, v)]"
| "insert_index n k v (p # ps) =
     (case array_index (fst p) of
        None \<Rightarrow> (k, v) # p # ps
      | Some m \<Rightarrow> (if m < n then p # insert_index n k v ps else (k, v) # p # ps))"

text \<open>
  Defining the own property \<open>k\<close> (a key of an object literal or of a spread): an
  existing property keeps its place and takes the new value.
\<close>

definition js_define :: "string \<Rightarrow> 'v \<Rightarrow> (string \<times> 'v) list \<Rightarrow> (string \<times> 'v) list" where
  "js_define k v obj =
     (if k \<in> set (map fst obj) then AList.update k v obj
      else (case array_index k of
              None \<Rightarrow> obj @ [(k, v)]
            | Some n \<Rightarrow> insert_index n k v obj))"

text \<open>
  The assignment \<open>obj[k] = v\<close> on an object that inherits from \<open>Object.prototype\<close>.
  The key \<open>__proto__\<close> is a setter there: no own property is created (the setter
  replaces the prototype when \<open>v\<close> is an object and does nothing otherwise). A
  prototype so installed is not tracked: a later read is that of an object that
  inherits from \<open>Object.prototype\<close>.
\<close>

definition proto_key :: string where
  "proto_key = ''__proto__''"

definition js_set :: "string \<Rightarrow> 'v \<Rightarrow> (string \<times> 'v) list \<Rightarrow> (string \<times> 'v) list" where
  "js_set k v obj = (if k = proto_key then obj else js_define k v obj)"

text \<open>The field types of one index; a field's type tag may be undefined.\<close>

type_synonym field_types = "(string \<times> string option) list"

text \<open>
  The instance state: \<open>this.config\<close>, \<open>this.fieldTypes\<close> and \<open>this.arrayFields\<close>;
  the last two are unset until \<open>initialize\<close> assigns them.
\<close>

record es =
  config :: es_config
  fieldTypes :: "(string \<times> field_types) list option"
  arrayFields :: "(string \<times> string list) list option"

subsection \<open>The engine client\<close>

text \<open>One sort clause \<open>{ field: direction }\<close> of a translated sort body.\<close>

type_synonym sort_item = "(string \<times> string) list"

text \<open>
  The \<open>query\<close> of a request body: a translated filter, or the \<open>ids\<close> query of the
  array-field lookup.
\<close>

datatype 'q es_query = FilterQuery 'q | IdsQuery "string list"

text \<open>The body of a search request; an absent key is \<open>None\<close>.\<close>

record 'q query_body =
  qb_from :: "int option"
  qb_query :: "'q es_query option"
  qb_sort :: "sort_item list option"
  qb_size :: "int option"
  qb_source :: "string list option"

text \<open>The argument of \<open>client.search\<close>.\<close>

record 'q search_params =
  sp_index :: "string option"
  sp_type :: "string option"
  sp_body :: "'q query_body"
  sp_scroll :: "string option"
  sp_size :: "int option"
  sp_source :: "string list option"
  sp_sort :: "string list option"

text \<open>One hit of a response and the response body \<open>{ _scroll_id, hits: { total, hits } }\<close>.\<close>

record 'd hit =
  hit_id :: string
  hit_source :: 'd

record 'd response =
  scroll_id :: "string option"
  hits_total :: int
  hits_hits :: "'d hit list"

text \<open>
  The body of a \<open>getMapping\<close> response:
  \<open>{ <alias>: { mappings: { <type>: { properties: { <field>: { type } } } } } }\<close>.
\<close>

type_synonym mapping_body = "(string \<times> (string \<times> field_types) list) list"

text \<open>Every call the code makes on the client, with its argument.\<close>

datatype 'q call =
    Search "'q search_params"
  | Scroll string string
  | ClearScroll "string option"
  | GetMapping string string

text \<open>
  The engine is outside the repository: it is a state machine over a state \<open>'s\<close>, each
  operation answering with a rejection (the \<open>message\<close> of the client's error) or a
  response body.
\<close>

record ('s, 'q, 'd) engine =
  es_search :: "'q search_params \<Rightarrow> 's \<Rightarrow> (string + 'd response) \<times> 's"
  es_scroll :: "string \<Rightarrow> string \<Rightarrow> 's \<Rightarrow> (string + 'd response) \<times> 's"
  es_clearScroll :: "string option \<Rightarrow> 's \<Rightarrow> (string + unit) \<times> 's"
  es_getMapping :: "string \<Rightarrow> string \<Rightarrow> 's \<Rightarrow> (string + mapping_body) \<times> 's"

text \<open>The state the code runs in: the engine's state and the calls issued so far.\<close>

type_synonym ('s, 'q) world = "'s \<times> 'q call list"

definition client_search ::
  "('s, 'q, 'd) engine \<Rightarrow> 'q search_params \<Rightarrow> ('s, 'q) world \<Rightarrow> (string + 'd response) \<times> ('s, 'q) world" where
  "client_search eng p w =
     (case es_search eng p (fst w) of (r, s') \<Rightarrow> (r, (s', snd w @ [Search p])))"

definition client_scroll ::
  "('s, 'q, 'd) engine \<Rightarrow> string \<Rightarrow> string \<Rightarrow> ('s, 'q) world \<Rightarrow> (string + 'd response) \<times> ('s, 'q) world" where
  "client_scroll eng sid ttl w =
     (case es_scroll eng sid ttl (fst w) of (r, s') \<Rightarrow> (r, (s', snd w @ [Scroll sid ttl])))"

definition client_clearScroll ::
  "('s, 'q, 'd) engine \<Rightarrow> string option \<Rightarrow> ('s, 'q) world \<Rightarrow> (string + unit) \<times> ('s, 'q) world" where
  "client_clearScroll eng sid w =
     (case es_clearScroll eng sid (fst w) of (r, s') \<Rightarrow> (r, (s', snd w @ [ClearScroll sid])))"

definition client_getMapping ::
  "('s, 'q, 'd) engine \<Rightarrow> string \<Rightarrow> string \<Rightarrow> ('s, 'q) world \<Rightarrow> (string + mapping_body) \<times> ('s, 'q) world" where
  "client_getMapping eng i t w =
     (case es_getMapping eng i t (fst w) of (r, s') \<Rightarrow> (r, (s', snd w @ [GetMapping i t])))"

subsection \<open>What the class imports from modules outside the source\<close>

text \<open>
  \<open>SCROLL_PAGE_SIZE\<close> (\<open>./const\<close>), \<open>getFilterObj\<close> (\<open>./filter\<close>) and \<open>getESSortBody\<close>
  (\<open>./sort\<close>) are not in the source: they are parameters. The two translators may
  throw; \<open>getESSortBody\<close> may return \<open>undefined\<close>.
\<close>

record ('s, 'q, 'd, 'f, 'o) env =
  client :: "('s, 'q, 'd) engine"
  SCROLL_PAGE_SIZE :: int
  getFilterObj :: "es \<Rightarrow> string option \<Rightarrow> string option \<Rightarrow> 'f \<Rightarrow> error + 'q"
  getESSortBody :: "'o option \<Rightarrow> es \<Rightarrow> string option \<Rightarrow> error + sort_item list option"

section \<open>Bounded search: \<open>query\<close>, \<open>filterData\<close>, \<open>getCount\<close>, \<open>getData\<close>\<close>

text \<open>
  \<open>query\<close> copies the keys of the body that are neither undefined nor null (an absent
  key and an undefined one are both \<open>None\<close> here, so the copy is the body itself),
  calls \<open>client.search\<close> and returns \<open>resp.body\<close>; a rejection is rethrown as
  \<open>new Error(err.message)\<close>.
\<close>

definition query ::
  "('s, 'q, 'd, 'f, 'o) env \<Rightarrow> string option \<Rightarrow> string option \<Rightarrow> 'q query_body \<Rightarrow>
   ('s, 'q) world \<Rightarrow> (error + 'd response) \<times> ('s, 'q) world" where
  "query E esIndex esType queryBody w =
     (let validatedQueryBody = queryBody in
      case client_search (client E)
             \<lparr>sp_index = esIndex, sp_type = esType, sp_body = validatedQueryBody,
              sp_scroll = None, sp_size = None, sp_source = None, sp_sort = None\<rparr> w of
        (Inl msg, w') \<Rightarrow> (Inl (Error msg), w')
      | (Inr body, w') \<Rightarrow> (Inr body, w'))"

text \<open>
  The second argument of \<open>filterData\<close> (and the argument of \<open>getData\<close>); \<open>offset\<close> and
  \<open>size\<close> are integers when given.
\<close>

record ('f, 'o) data_args =
  arg_filter :: "'f option"
  arg_fields :: "string list option"
  arg_sort :: "'o option"
  arg_offset :: "int option"
  arg_size :: "int option"

text \<open>
  \<open>if (typeof filter !== 'undefined') queryBody.query = getFilterObj(...)\<close>: the
  \<open>query\<close> key of the body, absent for an undefined filter.
\<close>

definition filter_query ::
  "('s, 'q, 'd, 'f, 'o) env \<Rightarrow> es \<Rightarrow> string option \<Rightarrow> string option \<Rightarrow> 'f option \<Rightarrow>
   error + 'q es_query option" where
  "filter_query E this esIndex esType fltr =
     (case fltr of
        None \<Rightarrow> Inr None
      | Some f \<Rightarrow> (case getFilterObj E this esIndex esType f of
                    Inl e \<Rightarrow> Inl e | Inr q \<Rightarrow> Inr (Some (FilterQuery q))))"

text \<open>
  \<open>filterData\<close>: the defaults \<open>fields = []\<close> and \<open>offset = 0\<close> replace an undefined
  argument; the filter is translated only when defined; the sort body is always
  computed; \<open>size\<close> and \<open>_source\<close> are set only when given and non-empty.
\<close>

definition filterData ::
  "('s, 'q, 'd, 'f, 'o) env \<Rightarrow> es \<Rightarrow> string option \<Rightarrow> string option \<Rightarrow> ('f, 'o) data_args \<Rightarrow>
   ('s, 'q) world \<Rightarrow> (error + 'd response) \<times> ('s, 'q) world" where
  "filterData E this esIndex esType a w =
     (let fields = (case arg_fields a of None \<Rightarrow> [] | Some fs \<Rightarrow> fs);
          offset = (case arg_offset a of None \<Rightarrow> 0 | Some n \<Rightarrow> n)
      in case filter_query E this esIndex esType (arg_filter a) of
           Inl e \<Rightarrow> (Inl e, w)
         | Inr q \<Rightarrow>
            (case getESSortBody E (arg_sort a) this esIndex of
               Inl e \<Rightarrow> (Inl e, w)
             | Inr srt \<Rightarrow>
                 query E esIndex esType
                   \<lparr>qb_from = Some offset, qb_query = q, qb_sort = srt,
                    qb_size = arg_size a,
                    qb_source = (if length fields > 0 then Some fields else None)\<rparr> w))"

text \<open>\<open>getCount\<close>: \<open>filterData\<close> with \<open>{ filter, fields: [] }\<close>, then \<open>result.hits.total\<close>.\<close>

definition getCount ::
  "('s, 'q, 'd, 'f, 'o) env \<Rightarrow> es \<Rightarrow> string option \<Rightarrow> string option \<Rightarrow> 'f option \<Rightarrow>
   ('s, 'q) world \<Rightarrow> (error + int) \<times> ('s, 'q) world" where
  "getCount E this esIndex esType fltr w =
     (case filterData E this esIndex esType
             \<lparr>arg_filter = fltr, arg_fields = Some [], arg_sort = None,
              arg_offset = None, arg_size = None\<rparr> w of
        (Inl e, w') \<Rightarrow> (Inl e, w')
      | (Inr result, w') \<Rightarrow> (Inr (hits_total result), w'))"

text \<open>
  Decimal rendering of a number inside a template string (of an integer below
  \<open>10^21\<close> in absolute value, which JavaScript prints in full).
\<close>

fun show_nat :: "nat \<Rightarrow> string" where
  "show_nat n =
     (if n < 10 then [char_of (48 + n)]
      else show_nat (n div 10) @ [char_of (48 + n mod 10)])"

definition show_int :: "int \<Rightarrow> string" where
  "show_int i = (if i < 0 then CHR ''-'' # show_nat (nat (- i)) else show_nat (nat i))"

definition show_num :: "int option \<Rightarrow> string" where
  "show_num v = (case v of None \<Rightarrow> ''undefined'' | Some i \<Rightarrow> show_int i)"

text \<open>
  The message of the page-size error (a template string over three lines); its last
  sentence sends the caller to the download endpoint.
\<close>

definition download_hint :: string where
  "download_hint = ''please use download endpoint for large data queries instead.''"

definition large_query_msg :: "int \<Rightarrow> int option \<Rightarrow> int option \<Rightarrow> string" where
  "large_query_msg lim off sz =
     ''Large graphql query forbidden for offset + size > '' @ show_int lim @ '', ''
     @ [CHR 0x0A] @ ''      offset = '' @ show_num off @ '' and size = '' @ show_num sz @ '',''
     @ [CHR 0x0A] @ ''      '' @ download_hint"

text \<open>
  \<open>offset + size > SCROLL_PAGE_SIZE\<close> on JavaScript numbers: with \<open>offset\<close> undefined
  the sum is \<open>NaN\<close> and the comparison is false.
\<close>

definition sum_exceeds :: "int option \<Rightarrow> int option \<Rightarrow> int \<Rightarrow> bool" where
  "sum_exceeds off sz lim =
     (case off of None \<Rightarrow> False
      | Some n \<Rightarrow> (case sz of None \<Rightarrow> False | Some m \<Rightarrow> n + m > lim))"

text \<open>
  \<open>getData\<close>: the guard on \<open>offset + size\<close>, then \<open>filterData\<close>, then the \<open>_source\<close> of
  every hit.
\<close>

definition getData ::
  "('s, 'q, 'd, 'f, 'o) env \<Rightarrow> es \<Rightarrow> string option \<Rightarrow> string option \<Rightarrow> ('f, 'o) data_args \<Rightarrow>
   ('s, 'q) world \<Rightarrow> (error + 'd list) \<times> ('s, 'q) world" where
  "getData E this esIndex esType a w =
     (if arg_size a \<noteq> None \<and> sum_exceeds (arg_offset a) (arg_size a) (SCROLL_PAGE_SIZE E)
      then (Inl (UserInputError
                   (large_query_msg (SCROLL_PAGE_SIZE E) (arg_offset a) (arg_size a))), w)
      else case filterData E this esIndex esType a w of
             (Inl e, w') \<Rightarrow> (Inl e, w')
           | (Inr result, w') \<Rightarrow> (Inr (map hit_source (hits_hits result)), w'))"

section \<open>Field metadata: \<open>getESFields\<close>, \<open>getESIndexByType\<close>, \<open>isArrayField\<close>\<close>

text \<open>One value of the object \<open>getESFields\<close> builds: \<open>{ index, type, fields }\<close>.\<close>

record index_fields =
  if_index :: string
  if_type :: string
  if_fields :: "string list"

text \<open>
  What \<open>getESFields\<close> returns: the whole object when \<open>esIndex\<close> is undefined, else
  \<open>res[esIndex]\<close>: the entry of the index, the member of \<open>Object.prototype\<close> of that
  name when the object has no such entry, or \<open>undefined\<close>.
\<close>

datatype es_fields =
    AllIndices "(string \<times> index_fields) list"
  | OneIndex index_fields
  | InheritedMember string
  | NoIndex

text \<open>
  The \<open>forEach\<close> of \<open>getESFields\<close>. \<open>Object.keys(this.fieldTypes[cfg.index])\<close> raises a
  TypeError when \<open>this.fieldTypes\<close> is unset or the read gives \<open>undefined\<close>; an
  inherited member has no enumerable key.
\<close>

fun getESFields_forEach ::
  "es \<Rightarrow> index_cfg list \<Rightarrow> (string \<times> index_fields) list \<Rightarrow> error + (string \<times> index_fields) list" where
  "getESFields_forEach this [] res = Inr res"
| "getESFields_forEach this (cfg # cfgs) res =
     (case fieldTypes this of
        None \<Rightarrow> Inl (TypeError ''fieldTypes'')
      | Some ft \<Rightarrow>
          (case js_get ft (cfg_index cfg) of
             Absent \<Rightarrow> Inl (TypeError ''Object.keys'')
           | Own m \<Rightarrow>
               getESFields_forEach this cfgs
                 (js_set (cfg_index cfg)
                    \<lparr>if_index = cfg_index cfg, if_type = cfg_type cfg, if_fields = map fst m\<rparr>
                    res)
           | Inherited k \<Rightarrow>
               getESFields_forEach this cfgs
                 (js_set (cfg_index cfg)
                    \<lparr>if_index = cfg_index cfg, if_type = cfg_type cfg, if_fields = []\<rparr>
                    res)))"

definition getESFields :: "es \<Rightarrow> string option \<Rightarrow> error + es_fields" where
  "getESFields this esIndex =
     (case indices (config this) of
        None \<Rightarrow> Inl (TypeError ''forEach'')
      | Some cfgs \<Rightarrow>
          (case getESFields_forEach this cfgs [] of
             Inl e \<Rightarrow> Inl e
           | Inr res \<Rightarrow>
               (case esIndex of
                  None \<Rightarrow> Inr (AllIndices res)
                | Some i \<Rightarrow>
                    (case js_get res i of
                       Absent \<Rightarrow> Inr NoIndex
                     | Own x \<Rightarrow> Inr (OneIndex x)
                     | Inherited k \<Rightarrow> Inr (InheritedMember k)))))"

definition getESIndexByType :: "es \<Rightarrow> string \<Rightarrow> error + string" where
  \<open>getESIndexByType this esType =
     (case indices (config this) of
        None \<Rightarrow> Inl (TypeError ''find'')
      | Some cfgs \<Rightarrow>
          (case find (\<lambda>i. cfg_type i = esType) cfgs of
             Some i \<Rightarrow> Inr (cfg_index i)
           | None \<Rightarrow> Inl (CodedError 400 (''Invalid es type: "'' @ esType @ ''"''))))\<close>

text \<open>
  The value of \<open>a && b\<close> in \<open>isArrayField\<close>: \<open>a\<close> itself when \<open>a\<close> is undefined, else
  the boolean \<open>b\<close> (an array, the empty one too, is truthy). When \<open>a\<close> is a member
  inherited from \<open>Object.prototype\<close> it is truthy and has no \<open>includes\<close>: the call
  raises a TypeError.
\<close>

datatype js_value = JSUndefined | JSBool bool

definition truthy :: "js_value \<Rightarrow> bool" where
  "truthy v = (case v of JSUndefined \<Rightarrow> False | JSBool b \<Rightarrow> b)"

definition isArrayField :: "es \<Rightarrow> string \<Rightarrow> string \<Rightarrow> error + js_value" where
  "isArrayField this esIndex field =
     (case arrayFields this of
        None \<Rightarrow> Inl (TypeError ''arrayFields'')
      | Some af \<Rightarrow>
          (case js_get af esIndex of
             Absent \<Rightarrow> Inr JSUndefined
           | Own fs \<Rightarrow> Inr (JSBool (field \<in> set fs))
           | Inherited k \<Rightarrow> Inl (TypeError ''includes'')))"

section \<open>Bulk export: \<open>scrollQuery\<close> and \<open>downloadData\<close>\<close>

text \<open>The third argument of \<open>scrollQuery\<close>; the filter is already translated.\<close>

record 'q scroll_args =
  sa_filter :: "'q option"
  sa_fields :: "string list option"
  sa_sort :: "sort_item list option"

text \<open>\<open>!x\<close> on a string that may be undefined.\<close>

definition falsy :: "string option \<Rightarrow> bool" where
  "falsy x = (x = None \<or> x = Some [])"

text \<open>
  \<open>_.difference(array, values)\<close>: the elements of \<open>array\<close> not in \<open>values\<close>, in order
  and with repetitions; the empty list when \<open>array\<close> is undefined.
\<close>

definition difference :: "string list option \<Rightarrow> string list \<Rightarrow> string list" where
  "difference array vals =
     (case array of None \<Rightarrow> [] | Some xs \<Rightarrow> filter (\<lambda>x. x \<notin> set vals) xs)"

text \<open>\<open>Array.prototype.join\<close>.\<close>

fun join :: "string \<Rightarrow> string list \<Rightarrow> string" where
  "join sep [] = []"
| "join sep [x] = x"
| "join sep (x # y # ys) = x @ sep @ join sep (y # ys)"

definition invalid_fields_msg :: "string list \<Rightarrow> string" where
  \<open>invalid_fields_msg fieldsNotBelong =
     ''Invalid fields: "'' @ join ''", "'' fieldsNotBelong @ ''"''\<close>

text \<open>The double quote that surrounds each field name in that message.\<close>

definition dquote :: string where
  "dquote = [CHR 0x22]"

text \<open>
  One element of \<open>sortStringList\<close>: the first key and the first value of the clause,
  \<open>undefined\<close> when the clause is an empty object.
\<close>

definition sort_token :: "sort_item \<Rightarrow> string" where
  "sort_token item =
     (case item of [] \<Rightarrow> ''undefined:undefined'' | (k, v) # _ \<Rightarrow> k @ '':'' @ v)"

text \<open>
  The two fetches of the loop. A rejected first search is rethrown as
  \<open>new Error(err.message)\<close>; a rejected \<open>client.scroll\<close> is not caught.
\<close>

definition first_batch ::
  "('s, 'q, 'd) engine \<Rightarrow> 'q search_params \<Rightarrow> ('s, 'q) world \<Rightarrow>
   (error + 'd response) \<times> ('s, 'q) world" where
  "first_batch eng p w =
     (case client_search eng p w of
        (Inl msg, w') \<Rightarrow> (Inl (Error msg), w')
      | (Inr body, w') \<Rightarrow> (Inr body, w'))"

definition next_batch ::
  "('s, 'q, 'd) engine \<Rightarrow> string \<Rightarrow> ('s, 'q) world \<Rightarrow>
   (error + 'd response) \<times> ('s, 'q) world" where
  "next_batch eng scrollID w =
     (case client_scroll eng scrollID ''1m'' w of
        (Inl msg, w') \<Rightarrow> (Inl (ClientError msg), w')
      | (Inr body, w') \<Rightarrow> (Inr body, w'))"

text \<open>
  The \<open>while (!currentBatch || batchSize > 0)\<close> loop over its four variables. It need
  not terminate (an engine may never send an empty batch): \<open>None\<close> is a run that
  never returns.
\<close>

partial_function (option) scroll_loop ::
  "('s, 'q, 'd) engine \<Rightarrow> 'q search_params \<Rightarrow>
   'd response option \<Rightarrow> string option \<Rightarrow> 'd list \<Rightarrow> nat \<Rightarrow> ('s, 'q) world \<Rightarrow>
   ((error + 'd list \<times> string option) \<times> ('s, 'q) world) option" where
  "scroll_loop eng p currentBatch scrollID totalData batchSize w =
     (if currentBatch = None \<or> batchSize > 0 then
        (case (case scrollID of None \<Rightarrow> first_batch eng p w
                              | Some sid \<Rightarrow> next_batch eng sid w) of
           (Inl e, w') \<Rightarrow> Some (Inl e, w')
         | (Inr b, w') \<Rightarrow>
             scroll_loop eng p (Some b) (scroll_id b)
               (totalData @ map hit_source (hits_hits b)) (length (hits_hits b)) w')
      else Some (Inr (totalData, scrollID), w))"

text \<open>The argument of the first \<open>client.search\<close> of \<open>scrollQuery\<close>.\<close>

definition scroll_search_params ::
  "('s, 'q, 'd, 'f, 'o) env \<Rightarrow> string option \<Rightarrow> string option \<Rightarrow> 'q scroll_args \<Rightarrow>
   'q search_params" where
  "scroll_search_params E esIndex esType a =
     \<lparr>sp_index = esIndex, sp_type = esType,
      sp_body = \<lparr>qb_from = None, qb_query = map_option FilterQuery (sa_filter a),
                 qb_sort = None, qb_size = None, qb_source = None\<rparr>,
      sp_scroll = Some ''1m'', sp_size = Some (SCROLL_PAGE_SIZE E),
      sp_source = sa_fields a,
      sp_sort = map_option (map sort_token) (sa_sort a)\<rparr>"

text \<open>
  The fields \<open>this.getESFields(esIndex).fields\<close> is compared with. Reading \<open>fields\<close> of
  \<open>undefined\<close> raises; an inherited member has no \<open>fields\<close>, and on the whole object
  (not reachable here, \<open>esIndex\<close> being truthy) \<open>fields\<close> is no array: \<open>_.difference\<close>
  then removes nothing.
\<close>

definition known_fields :: "es_fields \<Rightarrow> error + string list" where
  "known_fields r =
     (case r of
        NoIndex \<Rightarrow> Inl (TypeError ''fields'')
      | OneIndex x \<Rightarrow> Inr (if_fields x)
      | InheritedMember k \<Rightarrow> Inr []
      | AllIndices res \<Rightarrow> Inr [])"

definition scrollQuery ::
  "('s, 'q, 'd, 'f, 'o) env \<Rightarrow> es \<Rightarrow> string option \<Rightarrow> string option \<Rightarrow> 'q scroll_args \<Rightarrow>
   ('s, 'q) world \<Rightarrow> ((error + 'd list) \<times> ('s, 'q) world) option" where
  "scrollQuery E this esIndex esType a w =
     (if falsy esIndex \<or> falsy esType
      then Some (Inl (CodedError 400 ''Invalid es index or es type name''), w)
      else
        (case getESFields this esIndex of
           Inl e \<Rightarrow> Some (Inl e, w)
         | Inr r \<Rightarrow>
             (case known_fields r of
                Inl e \<Rightarrow> Some (Inl e, w)
              | Inr known \<Rightarrow>
                  (let fieldsNotBelong = difference (sa_fields a) known in
                   if length fieldsNotBelong > 0
                   then Some (Inl (CodedError 400 (invalid_fields_msg fieldsNotBelong)), w)
                   else
                     (case scroll_loop (client E) (scroll_search_params E esIndex esType a)
                             None None [] 0 w of
                        None \<Rightarrow> None
                      | Some (Inl e, w') \<Rightarrow> Some (Inl e, w')
                      | Some (Inr (totalData, scrollID), w') \<Rightarrow>
                          (case client_clearScroll (client E) scrollID w' of
                             (Inl msg, w'') \<Rightarrow> Some (Inl (ClientError msg), w'')
                           | (Inr u, w'') \<Rightarrow> Some (Inr totalData, w'')))))))"

text \<open>\<open>downloadData\<close>: translate the filter (when truthy) and the sort, then scroll.\<close>

definition downloadData ::
  "('s, 'q, 'd, 'f, 'o) env \<Rightarrow> es \<Rightarrow> string option \<Rightarrow> string option \<Rightarrow> ('f, 'o) data_args \<Rightarrow>
   ('s, 'q) world \<Rightarrow> ((error + 'd list) \<times> ('s, 'q) world) option" where
  "downloadData E this esIndex esType a w =
     (case (case arg_filter a of
              None \<Rightarrow> Inr None
            | Some f \<Rightarrow> (case getFilterObj E this esIndex esType f of
                          Inl e \<Rightarrow> Inl e | Inr q \<Rightarrow> Inr (Some q))) of
        Inl e \<Rightarrow> Some (Inl e, w)
      | Inr esFilterObj \<Rightarrow>
          (case getESSortBody E (arg_sort a) this esIndex of
             Inl e \<Rightarrow> Some (Inl e, w)
           | Inr srt \<Rightarrow>
               scrollQuery E this esIndex esType
                 \<lparr>sa_filter = esFilterObj, sa_fields = arg_fields a, sa_sort = srt\<rparr> w))"

section \<open>Initialization: the metadata cache\<close>

text \<open>The prefix of every error of \<open>_getESFieldsTypes\<close>.\<close>

definition mapping_errMsg :: "string \<Rightarrow> string" where
  \<open>mapping_errMsg esIndex =
     ''[ES.initialize] error getting mapping from ES index "'' @ esIndex @ ''"''\<close>

text \<open>
  \<open>_getESFieldsTypes\<close>: the first alias of the response, its mapping for the type, and
  the type tag of each property. A missing level (also a type name that only reads an
  inherited member, which has no \<open>properties\<close>) raises a TypeError inside the
  \<open>try\<close>, rethrown as an \<open>Error\<close> with the prefix (the runtime's text of the TypeError
  is cut to its name); a rejection is rethrown with the prefix and its message.
\<close>

definition getESFieldsTypes ::
  "('s, 'q, 'd) engine \<Rightarrow> string \<Rightarrow> string \<Rightarrow> ('s, 'q) world \<Rightarrow>
   (error + field_types) \<times> ('s, 'q) world" where
  "getESFieldsTypes eng esIndex esType w =
     (case client_getMapping eng esIndex esType w of
        (Inl msg, w') \<Rightarrow> (Inl (Error (mapping_errMsg esIndex @ '': '' @ msg)), w')
      | (Inr body, w') \<Rightarrow>
          (case body of
             [] \<Rightarrow> (Inl (Error (mapping_errMsg esIndex @ '': TypeError'')), w')
           | (esIndexAlias, mappings) # _ \<Rightarrow>
               (case js_get mappings esType of
                  Absent \<Rightarrow> (Inl (Error (mapping_errMsg esIndex @ '': TypeError'')), w')
                | Inherited k \<Rightarrow> (Inl (Error (mapping_errMsg esIndex @ '': TypeError'')), w')
                | Own mappingObj \<Rightarrow>
                    (Inr (fold (\<lambda>(field, esFieldType) acc. js_set field esFieldType acc)
                            mappingObj []), w'))))"

text \<open>
  \<open>config.indices.map(cfg => this._getESFieldsTypes(...))\<close>: every request is issued,
  in the order of the list, whatever the others answer.
\<close>

fun mapping_promises ::
  "('s, 'q, 'd) engine \<Rightarrow> index_cfg list \<Rightarrow> ('s, 'q) world \<Rightarrow>
   (error + string \<times> field_types) list \<times> ('s, 'q) world" where
  "mapping_promises eng [] w = ([], w)"
| "mapping_promises eng (cfg # cfgs) w =
     (case getESFieldsTypes eng (cfg_index cfg) (cfg_type cfg) w of
        (r, w') \<Rightarrow>
          (case mapping_promises eng cfgs w' of
             (rs, w'') \<Rightarrow>
               ((case r of Inl e \<Rightarrow> Inl e | Inr res \<Rightarrow> Inr (cfg_index cfg, res)) # rs, w'')))"

text \<open>
  \<open>Promise.all\<close>: the results in order, or a rejection (here the first of the list;
  at run time the first to arrive).
\<close>

fun promise_all :: "(error + 'a) list \<Rightarrow> error + 'a list" where
  "promise_all [] = Inr []"
| "promise_all (Inl e # rs) = Inl e"
| "promise_all (Inr x # rs) = (case promise_all rs of Inl e \<Rightarrow> Inl e | Inr xs \<Rightarrow> Inr (x # xs))"

text \<open>
  The two tests of the guard of \<open>_getMappingsForAllIndices\<close> on \<open>this.config.indices\<close>:
  \<open>!indices\<close> holds of \<open>undefined\<close> only (every array is truthy, the empty one too), and
  \<open>indices === 0\<close> holds of no array and not of \<open>undefined\<close>.
\<close>

definition not_indices :: "index_cfg list option \<Rightarrow> bool" where
  "not_indices v = (case v of None \<Rightarrow> True | Some cfgs \<Rightarrow> False)"

definition indices_strict_eq_0 :: "index_cfg list option \<Rightarrow> bool" where
  "indices_strict_eq_0 v = (case v of None \<Rightarrow> False | Some cfgs \<Rightarrow> False)"

definition getMappingsForAllIndices ::
  "('s, 'q, 'd) engine \<Rightarrow> es \<Rightarrow> ('s, 'q) world \<Rightarrow>
   (error + (string \<times> field_types) list) \<times> ('s, 'q) world" where
  \<open>getMappingsForAllIndices eng this w =
     (if not_indices (indices (config this)) \<or> indices_strict_eq_0 (indices (config this))
      then (Inl (Error ''[ES.initialize] Error when initializing: empty "config.indices" block''), w)
      else
        (case indices (config this) of
           None \<Rightarrow> (Inl (TypeError ''map''), w)
         | Some cfgs \<Rightarrow>
             (case mapping_promises eng cfgs w of
                (promiseList, w') \<Rightarrow>
                  (case promise_all promiseList of
                     Inl e \<Rightarrow> (Inl e, w')
                   | Inr resultList \<Rightarrow>
                       (Inr (fold (\<lambda>(i, res) acc. js_set i res acc)
                               resultList []), w')))))\<close>

text \<open>
  The inner \<open>forEach\<close> of \<open>_getArrayFieldsFromConfigIndex\<close>, for a document whose id
  names an index with field types. A field is skipped when
  \<open>this.fieldTypes[index][field]\<close> is falsy: no such property, an undefined type tag or
  the empty string (a member inherited from \<open>Object.prototype\<close> is truthy). Else the
  field is pushed on \<open>arrayFields[index]\<close>, created empty when that read is
  \<open>undefined\<close>; when the read gives an inherited member (truthy, with no \<open>push\<close>) the
  call raises. Every error inside the \<open>try\<close> is rethrown as \<open>new Error(err)\<close>.
\<close>

definition truthy_type :: "string option js_prop \<Rightarrow> bool" where
  "truthy_type p =
     (case p of
        Own None \<Rightarrow> False
      | Own (Some t) \<Rightarrow> t \<noteq> []
      | Inherited k \<Rightarrow> True
      | Absent \<Rightarrow> False)"

fun array_fields_of_doc ::
  "field_types \<Rightarrow> string \<Rightarrow> string list \<Rightarrow> (string \<times> string list) list \<Rightarrow>
   error + (string \<times> string list) list" where
  "array_fields_of_doc ft i [] arr = Inr arr"
| "array_fields_of_doc ft i (field # flds) arr =
     (if \<not> truthy_type (js_get ft field) then array_fields_of_doc ft i flds arr
      else
        (case js_get arr i of
           Absent \<Rightarrow> array_fields_of_doc ft i flds (js_set i [field] arr)
         | Own fs \<Rightarrow> array_fields_of_doc ft i flds (js_define i (fs @ [field]) arr)
         | Inherited k \<Rightarrow> Inl (Error ''TypeError'')))"

text \<open>
  The outer \<open>forEach\<close>. A document whose id reads \<open>undefined\<close> in \<open>this.fieldTypes\<close> is
  skipped; \<open>fields.forEach\<close> on an undefined \<open>array\<close> raises. When the id only reads a
  member inherited from \<open>Object.prototype\<close>, a field is skipped unless the member has
  a truthy property of the field's name (or reading it raises); then
  \<open>arrayFields[index]\<close> is that same kind of member and the push raises.
  \<open>array_of\<close> reads \<open>doc._source.array\<close>; \<open>member\<close> tells which properties the
  built-in members of \<open>Object.prototype\<close> have (the runtime's, not in the source).
\<close>

fun array_fields_of_hits ::
  "('d \<Rightarrow> string list option) \<Rightarrow> (string \<Rightarrow> string \<Rightarrow> bool) \<Rightarrow>
   (string \<times> field_types) list \<Rightarrow> 'd hit list \<Rightarrow>
   (string \<times> string list) list \<Rightarrow> error + (string \<times> string list) list" where
  "array_fields_of_hits array_of member fts [] arr = Inr arr"
| "array_fields_of_hits array_of member fts (doc # docs) arr =
     (case js_get fts (hit_id doc) of
        Absent \<Rightarrow> array_fields_of_hits array_of member fts docs arr
      | Own ft \<Rightarrow>
          (case array_of (hit_source doc) of
             None \<Rightarrow> Inl (Error ''TypeError'')
           | Some flds \<Rightarrow>
               (case array_fields_of_doc ft (hit_id doc) flds arr of
                  Inl e \<Rightarrow> Inl e
                | Inr arr' \<Rightarrow> array_fields_of_hits array_of member fts docs arr'))
      | Inherited k \<Rightarrow>
          (case array_of (hit_source doc) of
             None \<Rightarrow> Inl (Error ''TypeError'')
           | Some flds \<Rightarrow>
               (if list_ex (member k) flds then Inl (Error ''TypeError'')
                else array_fields_of_hits array_of member fts docs arr)))"

definition getArrayFieldsFromConfigIndex ::
  "('s, 'q, 'd) engine \<Rightarrow> ('d \<Rightarrow> string list option) \<Rightarrow> (string \<Rightarrow> string \<Rightarrow> bool) \<Rightarrow>
   es \<Rightarrow> ('s, 'q) world \<Rightarrow>
   (error + (string \<times> string list) list) \<times> ('s, 'q) world" where
  "getArrayFieldsFromConfigIndex eng array_of member this w =
     (case configIndex (config this) of
        None \<Rightarrow> (Inr [], w)
      | Some ci \<Rightarrow>
          (case fieldTypes this of
             None \<Rightarrow> (Inr [], w)
           | Some fts \<Rightarrow>
               (case client_search eng
                       \<lparr>sp_index = Some ci, sp_type = None,
                        sp_body = \<lparr>qb_from = None, qb_query = Some (IdsQuery (map fst fts)),
                                   qb_sort = None, qb_size = None, qb_source = None\<rparr>,
                        sp_scroll = None, sp_size = None, sp_source = None, sp_sort = None\<rparr> w of
                  (Inl msg, w') \<Rightarrow> (Inl (Error msg), w')
                | (Inr body, w') \<Rightarrow>
                    (array_fields_of_hits array_of member fts (hits_hits body) [], w'))))"

text \<open>
  \<open>initialize\<close>: \<open>this.fieldTypes\<close> is assigned before the array fields are looked up,
  \<open>this.arrayFields\<close> after; an error leaves what was assigned so far.
\<close>

definition initialize ::
  "('s, 'q, 'd) engine \<Rightarrow> ('d \<Rightarrow> string list option) \<Rightarrow> (string \<Rightarrow> string \<Rightarrow> bool) \<Rightarrow>
   es \<Rightarrow> ('s, 'q) world \<Rightarrow> (error + unit) \<times> es \<times> ('s, 'q) world" where
  "initialize eng array_of member this w =
     (case getMappingsForAllIndices eng this w of
        (Inl e, w') \<Rightarrow> (Inl e, this, w')
      | (Inr fts, w') \<Rightarrow>
          (let this' = this\<lparr>fieldTypes := Some fts\<rparr> in
           case getArrayFieldsFromConfigIndex eng array_of member this' w' of
             (Inl e, w'') \<Rightarrow> (Inl e, this', w'')
           | (Inr af, w'') \<Rightarrow> (Inr (), this'\<lparr>arrayFields := Some af\<rparr>, w'')))"

section \<open>The tier-access middleware\<close>

text \<open>
  \<open>firstLetterUpperCase\<close> (\<open>utils\<close>), \<open>tierAccessResolver\<close> and \<open>hideNumberResolver\<close>
  (\<open>./resolvers\<close>) are not in the source: they are parameters, the resolvers they
  build being values of a type \<open>'r\<close>.
\<close>

text \<open>The argument of \<open>tierAccessResolver\<close>: \<open>{ isRawDataQuery, esType, esIndex }\<close>.\<close>

record tier_opts =
  opt_isRawDataQuery :: "bool option"
  opt_esType :: string
  opt_esIndex :: string

record 'r resolvers =
  firstLetterUpperCase :: "string \<Rightarrow> string"
  tierAccessResolver :: "tier_opts \<Rightarrow> 'r"
  hideNumberResolver :: "bool \<Rightarrow> bool \<Rightarrow> 'r"

text \<open>
  One round of the \<open>forEach\<close> over \<open>config.esConfig.indices\<close>, on
  \<open>queryTypeMapping\<close>, \<open>aggsTypeMapping\<close> and \<open>totalCountTypeMapping\<close>.
\<close>

definition type_mappings_step ::
  "'r resolvers \<Rightarrow> index_cfg \<Rightarrow>
   (string \<times> 'r) list \<times> (string \<times> 'r) list \<times> (string \<times> (string \<times> 'r) list) list \<Rightarrow>
   (string \<times> 'r) list \<times> (string \<times> 'r) list \<times> (string \<times> (string \<times> 'r) list) list" where
  "type_mappings_step R item m =
     (case m of (queryTypeMapping, aggsTypeMapping, totalCountTypeMapping) \<Rightarrow>
        (js_set (cfg_type item)
           (tierAccessResolver R
              \<lparr>opt_isRawDataQuery = Some True, opt_esType = cfg_type item,
               opt_esIndex = cfg_index item\<rparr>)
           queryTypeMapping,
         js_set (cfg_type item)
           (tierAccessResolver R
              \<lparr>opt_isRawDataQuery = None, opt_esType = cfg_type item,
               opt_esIndex = cfg_index item\<rparr>)
           aggsTypeMapping,
         js_set (firstLetterUpperCase R (cfg_type item) @ ''Aggregation'')
           [(''_totalCount'', hideNumberResolver R True True)]
           totalCountTypeMapping))"

text \<open>
  The exported object literal: its keys are defined from left to right, the spreads
  copying the own properties of the three objects, that of \<open>totalCountTypeMapping\<close>
  between \<open>Aggregation\<close> and the two histogram keys.
\<close>

definition tierAccessMiddleware ::
  "'r resolvers \<Rightarrow> es_config \<Rightarrow> error + (string \<times> (string \<times> 'r) list) list" where
  "tierAccessMiddleware R cfg =
     (case indices cfg of
        None \<Rightarrow> Inl (TypeError ''forEach'')
      | Some items \<Rightarrow>
          (case fold (type_mappings_step R) items ([], [], []) of
             (queryTypeMapping, aggsTypeMapping, totalCountTypeMapping) \<Rightarrow>
               Inr (js_define ''HistogramForString''
                      [(''histogram'', hideNumberResolver R False True)]
                   (js_define ''HistogramForNumber''
                      [(''histogram'', hideNumberResolver R False True)]
                   (fold (\<lambda>(k, v) obj. js_define k v obj) totalCountTypeMapping
                   (js_define ''Aggregation''
                      (fold (\<lambda>(k, v) obj. js_define k v obj) aggsTypeMapping [])
                   (js_define ''Query''
                      (fold (\<lambda>(k, v) obj. js_define k v obj) queryTypeMapping [])
                      [])))))))"

section \<open>An engine that answers from a script\<close>

text \<open>
  The engine of the statements about scrolling, after the client contract of the
  specification (\<open>search\<close> and \<open>scroll\<close> answer with a batch of hits and a cursor
  id, possibly renewed; an exhausted cursor answers with an empty batch). Its state is
  the list of answers still to give to \<open>search\<close> and \<open>scroll\<close> calls, each a
  rejection or a cursor id with a batch; when the list is used up it answers with the
  empty batch under the cursor id \<open>c\<close>. \<open>n\<close> is the match total it reports.
\<close>

definition script_reply ::
  "string \<Rightarrow> int \<Rightarrow> (string + string \<times> 'd hit list) list \<Rightarrow>
   (string + 'd response) \<times> (string + string \<times> 'd hit list) list" where
  "script_reply c n s =
     (case s of
        [] \<Rightarrow> (Inr \<lparr>scroll_id = Some c, hits_total = n, hits_hits = []\<rparr>, [])
      | Inl msg # rest \<Rightarrow> (Inl msg, rest)
      | Inr (sid, hs) # rest \<Rightarrow>
          (Inr \<lparr>scroll_id = Some sid, hits_total = n, hits_hits = hs\<rparr>, rest))"

definition script_engine ::
  "string \<Rightarrow> int \<Rightarrow> ((string + string \<times> 'd hit list) list, 'q, 'd) engine" where
  "script_engine c n =
     \<lparr>es_search = (\<lambda>p s. script_reply c n s),
      es_scroll = (\<lambda>sid ttl s. script_reply c n s),
      es_clearScroll = (\<lambda>sid s. (Inr (), s)),
      es_getMapping = (\<lambda>i t s. (Inl ''no mapping'', s))\<rparr>"

section \<open>A small configuration to run the code on\<close>

text \<open>
  One index \<open>idx\<close> of type \<open>subject\<close> with the fields \<open>gender\<close> and \<open>age\<close> and no
  array field; translators that hand the filter through and produce no sort body; a
  page size of 10000; documents, filters and queries are strings.
\<close>

definition example_es :: es where
  "example_es =
     \<lparr>config = \<lparr>host = ''http://localhost:9200'',
                 indices = Some [\<lparr>cfg_index = ''idx'', cfg_type = ''subject''\<rparr>],
                 configIndex = None\<rparr>,
      fieldTypes = Some [(''idx'', [(''gender'', Some ''keyword''), (''age'', Some ''long'')])],
      arrayFields = Some []\<rparr>"

definition example_env ::
  "((string + string \<times> string hit list) list, string, string, string, string) env" where
  "example_env =
     \<lparr>client = script_engine ''c0'' 3, SCROLL_PAGE_SIZE = 10000,
      getFilterObj = (\<lambda>this i t f. Inr f),
      getESSortBody = (\<lambda>srt this i. Inr None)\<rparr>"

text \<open>
  The same instance before \<open>initialize\<close>, configured with an empty list of indices
  and no array-field index.
\<close>

definition empty_indices_es :: es where
  "empty_indices_es =
     \<lparr>config = \<lparr>host = ''http://localhost:9200'', indices = Some [], configIndex = None\<rparr>,
      fieldTypes = None, arrayFields = None\<rparr>"

text \<open>A configuration in which two indices declare the same type.\<close>

definition shared_type_config :: es_config where
  "shared_type_config =
     \<lparr>host = ''http://localhost:9200'',
      indices = Some [\<lparr>cfg_index = ''subject_v1'', cfg_type = ''subject''\<rparr>,
                      \<lparr>cfg_index = ''subject_v2'', cfg_type = ''subject''\<rparr>],
      configIndex = None\<rparr>"

text \<open>
  Resolvers that record the arguments they were built with, and a
  \<open>firstLetterUpperCase\<close> on ASCII letters.
\<close>

datatype example_resolver = TierAccess tier_opts | HideNumber bool bool

definition example_resolvers :: "example_resolver resolvers" where
  "example_resolvers =
     \<lparr>firstLetterUpperCase =
        (\<lambda>s. case s of [] \<Rightarrow> []
              | c # cs \<Rightarrow>
                  (if 97 \<le> (of_char c :: nat) \<and> (of_char c :: nat) \<le> 122
                   then char_of ((of_char c :: nat) - 32) else c) # cs),
      tierAccessResolver = TierAccess,
      hideNumberResolver = HideNumber\<rparr>"

section \<open>Facts about JavaScript objects\<close>

lemma js_get_Own_iff: "js_get obj k = Own v \<longleftrightarrow> map_of obj k = Some v"
  by (auto simp add: js_get_def split: option.splits)

lemma js_get_Absent_iff:
  "js_get obj k = Absent \<longleftrightarrow> map_of obj k = None \<and> k \<notin> set object_prototype_keys"
  by (auto simp add: js_get_def split: option.splits)

lemma insert_index_keys: "fst ` set (insert_index n k v obj) = insert k (fst ` set obj)"
  by (induction obj) (auto split: option.splits)

lemma map_of_insert_index:
  "k \<notin> fst ` set obj \<Longrightarrow> map_of (insert_index n k v obj) = (map_of obj)(k \<mapsto> v)"
proof (induction obj)
  case Nil
  then show ?case by simp
next
  case (Cons p ps)
  obtain k' v' where p: "p = (k', v')" by (cases p)
  from Cons.prems p have ne: "k' \<noteq> k" and nin: "k \<notin> fst ` set ps" by auto
  show ?case
  proof (cases "array_index k'")
    case None
    then show ?thesis by (auto simp add: p fun_eq_iff)
  next
    case (Some m)
    show ?thesis
    proof (cases "m < n")
      case True
      with Some Cons.IH [OF nin] ne show ?thesis
        by (auto simp add: p fun_eq_iff)
    next
      case False
      with Some show ?thesis by (auto simp add: p fun_eq_iff)
    qed
  qed
qed

lemma distinct_insert_index:
  "k \<notin> fst ` set obj \<Longrightarrow> distinct (map fst obj) \<Longrightarrow>
   distinct (map fst (insert_index n k v obj))"
proof (induction obj)
  case Nil
  then show ?case by simp
next
  case (Cons p ps)
  then show ?case
    by (auto simp add: insert_index_keys split: option.splits)
qed

lemma js_define_keys: "fst ` set (js_define k v obj) = insert k (fst ` set obj)"
  by (auto simp add: js_define_def dom_update insert_index_keys split: option.splits)

lemma map_of_js_define: "map_of (js_define k v obj) = (map_of obj)(k \<mapsto> v)"
proof (cases "k \<in> fst ` set obj")
  case True
  then show ?thesis by (simp add: js_define_def update_conv')
next
  case False
  then have n: "map_of obj k = None" by (simp add: map_of_eq_None_iff)
  have "map_of (obj @ [(k, v)]) = (map_of obj)(k \<mapsto> v)"
    using n by (auto simp add: fun_eq_iff map_add_def split: option.splits)
  with False show ?thesis
    by (simp add: js_define_def map_of_insert_index split: option.splits)
qed

lemma distinct_js_define:
  "distinct (map fst obj) \<Longrightarrow> distinct (map fst (js_define k v obj))"
  by (auto simp add: js_define_def distinct_update distinct_insert_index split: option.splits)

lemma js_set_keys:
  "k \<noteq> proto_key \<Longrightarrow> fst ` set (js_set k v obj) = insert k (fst ` set obj)"
  by (simp add: js_set_def js_define_keys)

lemma map_of_js_set:
  "k \<noteq> proto_key \<Longrightarrow> map_of (js_set k v obj) = (map_of obj)(k \<mapsto> v)"
  by (simp add: js_set_def map_of_js_define)

lemma map_of_js_set_other:
  "k' \<noteq> k \<Longrightarrow> map_of (js_set k v obj) k' = map_of obj k'"
  by (simp add: js_set_def map_of_js_define)

lemma distinct_js_set:
  "distinct (map fst obj) \<Longrightarrow> distinct (map fst (js_set k v obj))"
  by (simp add: js_set_def distinct_js_define)

lemma array_index_idx: "array_index ''idx'' = None"
  by (simp add: array_index_def is_digit_def)

section \<open>The page-size ceiling of \<open>getData\<close>\<close>

lemma large_query_msg_suffix:
  "\<exists>pre. large_query_msg lim off sz = pre @ download_hint"
proof -
  have "large_query_msg lim off sz =
     (''Large graphql query forbidden for offset + size > '' @ show_int lim @ '', ''
     @ [CHR 0x0A] @ ''      offset = '' @ show_num off @ '' and size = '' @ show_num sz @ '',''
     @ [CHR 0x0A] @ ''      '') @ download_hint"
    unfolding large_query_msg_def by (simp only: append_assoc)
  then show ?thesis by (rule exI)
qed

lemma example_page_size: "SCROLL_PAGE_SIZE example_env = 10000"
  by (simp add: example_env_def)

lemma example_client: "client example_env = script_engine ''c0'' 3"
  by (simp add: example_env_def)

text \<open>
  When the request gives both \<open>offset\<close> and \<open>size\<close> and their sum exceeds
  \<open>SCROLL_PAGE_SIZE\<close>, the guard of \<open>getData\<close> rejects it: the result is the
  \<open>UserInputError\<close> whose message ends by sending the caller to the download
  endpoint, and the state is returned as it was.
\<close>

lemma getData_rejects_given_offset:
  assumes "arg_offset a = Some n" and "arg_size a = Some m"
    and "n + m > SCROLL_PAGE_SIZE E"
  shows "getData E this esIndex esType a w =
           (Inl (UserInputError (large_query_msg (SCROLL_PAGE_SIZE E) (Some n) (Some m))), w)
         \<and> (\<exists>pre. large_query_msg (SCROLL_PAGE_SIZE E) (Some n) (Some m) = pre @ download_hint)"
proof
  show "getData E this esIndex esType a w =
           (Inl (UserInputError (large_query_msg (SCROLL_PAGE_SIZE E) (Some n) (Some m))), w)"
    using assms by (simp add: getData_def sum_exceeds_def)
  show "\<exists>pre. large_query_msg (SCROLL_PAGE_SIZE E) (Some n) (Some m) = pre @ download_hint"
    by (rule large_query_msg_suffix)
qed

text \<open>
  Claim C1 fails on the code for a request that leaves \<open>offset\<close> out. With a page
  size of 10000 and \<open>size = 20000\<close> the guard adds \<open>undefined\<close> and 20000, compares
  \<open>NaN\<close> with the ceiling and lets the request through; \<open>filterData\<close> then takes the
  offset to be 0 and the search for 20000 rows from row 0 is sent to the engine.
\<close>

theorem getData_omitted_offset_reaches_engine:
  "(0::int) + 20000 > SCROLL_PAGE_SIZE example_env
   \<and> getData example_env example_es (Some ''idx'') (Some ''subject'')
        \<lparr>arg_filter = None, arg_fields = None, arg_sort = None,
         arg_offset = None, arg_size = Some 20000\<rparr> ([], []) =
      (Inr [],
       ([], [Search \<lparr>sp_index = Some ''idx'', sp_type = Some ''subject'',
               sp_body = \<lparr>qb_from = Some 0, qb_query = None, qb_sort = None,
                          qb_size = Some 20000, qb_source = None\<rparr>,
               sp_scroll = None, sp_size = None, sp_source = None, sp_sort = None\<rparr>]))"
  by (simp add: getData_def sum_exceeds_def filterData_def filter_query_def query_def
        client_search_def example_env_def script_engine_def script_reply_def)

lemma query_log:
  "snd (snd (query E esIndex esType b w)) =
     snd w @ [Search \<lparr>sp_index = esIndex, sp_type = esType, sp_body = b,
              sp_scroll = None, sp_size = None, sp_source = None, sp_sort = None\<rparr>]"
proof -
  let ?p = "\<lparr>sp_index = esIndex, sp_type = esType, sp_body = b,
              sp_scroll = None, sp_size = None, sp_source = None, sp_sort = None\<rparr>"
  obtain r s' where e: "es_search (client E) ?p (fst w) = (r, s')"
    by (cases "es_search (client E) ?p (fst w)")
  show ?thesis
    by (cases r) (simp_all add: query_def client_search_def e)
qed

lemma query_result:
  "fst (query E esIndex esType b w) \<noteq> Inl (UserInputError msg)"
proof -
  let ?p = "\<lparr>sp_index = esIndex, sp_type = esType, sp_body = b,
              sp_scroll = None, sp_size = None, sp_source = None, sp_sort = None\<rparr>"
  obtain r s' where e: "es_search (client E) ?p (fst w) = (r, s')"
    by (cases "es_search (client E) ?p (fst w)")
  show ?thesis
    by (cases r) (simp_all add: query_def client_search_def e)
qed

text \<open>
  Claim C10. When \<open>size\<close> is undefined the ceiling is not checked: whatever \<open>offset\<close>
  is, once the filter and the sort are translated exactly one search is sent to the
  engine, from that offset (0 when undefined) and without a size, and the request
  does not fail with the \<open>UserInputError\<close> of the ceiling.
\<close>

theorem getData_without_size_dispatches:
  assumes "arg_size a = None"
    and "filter_query E this esIndex esType (arg_filter a) = Inr q"
    and "getESSortBody E (arg_sort a) this esIndex = Inr srt"
  shows "snd (snd (getData E this esIndex esType a w)) =
           snd w @ [Search \<lparr>sp_index = esIndex, sp_type = esType,
              sp_body = \<lparr>qb_from = Some (case arg_offset a of None \<Rightarrow> 0 | Some n \<Rightarrow> n),
                         qb_query = q, qb_sort = srt, qb_size = None,
                         qb_source = (case arg_fields a of None \<Rightarrow> None
                                      | Some fs \<Rightarrow> if fs = [] then None else Some fs)\<rparr>,
              sp_scroll = None, sp_size = None, sp_source = None, sp_sort = None\<rparr>]
         \<and> (\<forall>msg. fst (getData E this esIndex esType a w) \<noteq> Inl (UserInputError msg))"
proof -
  let ?b = "\<lparr>qb_from = Some (case arg_offset a of None \<Rightarrow> 0 | Some n \<Rightarrow> n),
                         qb_query = q, qb_sort = srt, qb_size = None,
                         qb_source = (case arg_fields a of None \<Rightarrow> None
                                      | Some fs \<Rightarrow> if fs = [] then None else Some fs)\<rparr>"
  have src: "(if length (case arg_fields a of None \<Rightarrow> [] | Some fs \<Rightarrow> fs) > 0
              then Some (case arg_fields a of None \<Rightarrow> [] | Some fs \<Rightarrow> fs) else None)
             = (case arg_fields a of None \<Rightarrow> None
                                      | Some fs \<Rightarrow> if fs = [] then None else Some fs)"
    by (cases "arg_fields a") simp_all
  have fd: "filterData E this esIndex esType a w = query E esIndex esType ?b w"
    unfolding filterData_def Let_def src using assms by simp
  obtain r w' where q: "query E esIndex esType ?b w = (r, w')"
    by (cases "query E esIndex esType ?b w")
  have gd: "getData E this esIndex esType a w =
      (case r of Inl e \<Rightarrow> (Inl e, w')
       | Inr result \<Rightarrow> (Inr (map hit_source (hits_hits result)), w'))"
    unfolding getData_def fd q using assms(1) by (simp split: sum.splits)
  have l: "snd (snd (getData E this esIndex esType a w)) = snd w'"
    unfolding gd by (cases r) simp_all
  have r: "fst (getData E this esIndex esType a w) \<noteq> Inl (UserInputError msg)" for msg
    using query_result [of E esIndex esType ?b w msg] unfolding gd q by (cases r) simp_all
  from l r query_log [of E esIndex esType ?b w] show ?thesis
    unfolding q by simp
qed

theorem getData_without_size_dispatches_witness:
  "(50000::int) > SCROLL_PAGE_SIZE example_env
   \<and> snd (snd (getData example_env example_es (Some ''idx'') (Some ''subject'')
        \<lparr>arg_filter = None, arg_fields = None, arg_sort = None,
         arg_offset = Some 50000, arg_size = None\<rparr> ([], []))) =
      [Search \<lparr>sp_index = Some ''idx'', sp_type = Some ''subject'',
         sp_body = \<lparr>qb_from = Some 50000, qb_query = None, qb_sort = None, qb_size = None,
                    qb_source = None\<rparr>,
         sp_scroll = None, sp_size = None, sp_source = None, sp_sort = None\<rparr>]"
  using getData_without_size_dispatches
          [where a = "\<lparr>arg_filter = None, arg_fields = None, arg_sort = None,
                       arg_offset = Some 50000, arg_size = None\<rparr>"
             and E = example_env and this = example_es and q = None and srt = None
             and esIndex = "Some ''idx''" and esType = "Some ''subject''" and w = "([], [])"]
  by (simp add: example_page_size filter_query_def) (simp add: example_env_def)

section \<open>\<open>getCount\<close>\<close>

text \<open>
  Claim C8, as stated, fails: the search \<open>getCount\<close> sends does not ask for zero
  source fields. \<open>filterData\<close> leaves an empty list of fields out of the body, so the
  body has no \<open>_source\<close> key at all, and the calls \<open>getCount\<close> issues are the very
  calls of a \<open>getData\<close> that asks for whole documents.
\<close>

theorem getCount_zero_fields_counterexample:
  "snd (snd (getCount example_env example_es (Some ''idx'') (Some ''subject'') None ([], []))) =
     [Search \<lparr>sp_index = Some ''idx'', sp_type = Some ''subject'',
        sp_body = \<lparr>qb_from = Some 0, qb_query = None, qb_sort = None, qb_size = None,
                   qb_source = None\<rparr>,
        sp_scroll = None, sp_size = None, sp_source = None, sp_sort = None\<rparr>]
   \<and> snd (snd (getData example_env example_es (Some ''idx'') (Some ''subject'')
                  \<lparr>arg_filter = None, arg_fields = None, arg_sort = None,
                   arg_offset = None, arg_size = None\<rparr> ([], []))) =
     snd (snd (getCount example_env example_es (Some ''idx'') (Some ''subject'') None ([], [])))"
  by (simp add: getCount_def getData_def sum_exceeds_def filterData_def filter_query_def
        query_def client_search_def example_env_def script_engine_def script_reply_def)

text \<open>
  Claim C8, amended. \<open>getCount\<close> is the bounded search called with an empty list of
  fields, which the search leaves out: once the filter is translated it sends one
  search whose body has no \<open>_source\<close> key (the source fields are not restricted), no
  size and offset 0, and it returns the \<open>hits.total\<close> of the response.
\<close>

theorem getCount_reads_total:
  assumes "filter_query E this esIndex esType fltr = Inr q"
    and "getESSortBody E None this esIndex = Inr srt"
    and "p = \<lparr>sp_index = esIndex, sp_type = esType,
              sp_body = \<lparr>qb_from = Some 0, qb_query = q, qb_sort = srt, qb_size = None,
                         qb_source = None\<rparr>,
              sp_scroll = None, sp_size = None, sp_source = None, sp_sort = None\<rparr>"
    and "es_search (client E) p (fst w) = (Inr r, s')"
  shows "getCount E this esIndex esType fltr w = (Inr (hits_total r), (s', snd w @ [Search p]))"
  using assms
  by (simp add: getCount_def filterData_def query_def client_search_def Let_def)

theorem getCount_reads_total_witness:
  "getCount example_env example_es (Some ''idx'') (Some ''subject'') (Some ''male'')
     ([Inr (''c1'', [\<lparr>hit_id = ''1'', hit_source = ''doc1''\<rparr>])], []) =
   (Inr 3, ([], [Search \<lparr>sp_index = Some ''idx'', sp_type = Some ''subject'',
         sp_body = \<lparr>qb_from = Some 0, qb_query = Some (FilterQuery ''male''), qb_sort = None,
                    qb_size = None, qb_source = None\<rparr>,
         sp_scroll = None, sp_size = None, sp_source = None, sp_sort = None\<rparr>]))"
  using getCount_reads_total
          [where E = example_env and this = example_es and fltr = "Some ''male''"
             and q = "Some (FilterQuery ''male'')" and srt = None
             and esIndex = "Some ''idx''" and esType = "Some ''subject''"
             and w = "([Inr (''c1'', [\<lparr>hit_id = ''1'', hit_source = ''doc1''\<rparr>])], [])"
             and r = "\<lparr>scroll_id = Some ''c1'', hits_total = 3,
                       hits_hits = [\<lparr>hit_id = ''1'', hit_source = ''doc1''\<rparr>]\<rparr>"
             and s' = "[]"
             and p = "\<lparr>sp_index = Some ''idx'', sp_type = Some ''subject'',
                sp_body = \<lparr>qb_from = Some 0, qb_query = Some (FilterQuery ''male''),
                           qb_sort = None, qb_size = None, qb_source = None\<rparr>,
                sp_scroll = None, sp_size = None, sp_source = None, sp_sort = None\<rparr>"]
  by (simp add: filter_query_def example_env_def script_engine_def script_reply_def)

section \<open>Field metadata\<close>

lemma getESFields_forEach_keys:
  assumes "fieldTypes this = Some ft"
    and "\<forall>c\<in>set cfgs. map_of ft (cfg_index c) \<noteq> None"
    and "\<forall>c\<in>set cfgs. cfg_index c \<noteq> proto_key"
  shows "\<exists>res'. getESFields_forEach this cfgs res = Inr res' \<and>
           fst ` set res' = fst ` set res \<union> cfg_index ` set cfgs"
  using assms(2,3)
proof (induction cfgs arbitrary: res)
  case Nil
  then show ?case by simp
next
  case (Cons c cfgs)
  from Cons.prems obtain m where m: "map_of ft (cfg_index c) = Some m" by auto
  then have g: "js_get ft (cfg_index c) = Own m" by (simp add: js_get_Own_iff)
  from Cons.prems have np: "cfg_index c \<noteq> proto_key" by simp
  let ?res = "js_set (cfg_index c)
                \<lparr>if_index = cfg_index c, if_type = cfg_type c, if_fields = map fst m\<rparr> res"
  from Cons.prems have "\<forall>c\<in>set cfgs. map_of ft (cfg_index c) \<noteq> None"
    and "\<forall>c\<in>set cfgs. cfg_index c \<noteq> proto_key" by simp_all
  from Cons.IH [OF this, of ?res] obtain res' where
    r: "getESFields_forEach this cfgs ?res = Inr res'"
       "fst ` set res' = fst ` set ?res \<union> cfg_index ` set cfgs" by blast
  have "getESFields_forEach this (c # cfgs) res = Inr res'"
    using assms(1) g r(1) by simp
  moreover have "fst ` set res' = fst ` set res \<union> cfg_index ` set (c # cfgs)"
    using r(2) np by (auto simp add: js_set_keys)
  ultimately show ?case by blast
qed

lemma example_getESFields:
  "getESFields example_es (Some ''idx'') =
     Inr (OneIndex \<lparr>if_index = ''idx'', if_type = ''subject'', if_fields = [''gender'', ''age'']\<rparr>)"
  by (simp add: getESFields_def example_es_def js_get_def js_set_def js_define_def
        proto_key_def array_index_idx)

text \<open>
  Claim C7, as stated, fails: for an index that is not configured \<open>getESFields\<close>
  raises nothing and returns \<open>undefined\<close>.
\<close>

theorem getESFields_unknown_index_counterexample:
  "getESFields example_es (Some ''unknownIndex'') = Inr NoIndex"
  by (simp add: getESFields_def example_es_def js_get_def js_set_def js_define_def
        proto_key_def array_index_idx object_prototype_keys_def)

text \<open>
  Claim C7, amended. When the field types of every configured index are loaded and
  no configured index is named \<open>__proto__\<close>, \<open>getESFields\<close> called with an index name
  that is not configured and is not the name of a property of \<open>Object.prototype\<close>
  (\<open>constructor\<close>, \<open>toString\<close>, ...) returns \<open>undefined\<close>, without an error.
\<close>

theorem getESFields_unknown_index_undefined:
  assumes "indices (config this) = Some cfgs" and "fieldTypes this = Some ft"
    and "\<forall>c\<in>set cfgs. map_of ft (cfg_index c) \<noteq> None"
    and "\<forall>c\<in>set cfgs. cfg_index c \<noteq> proto_key"
    and "i \<notin> cfg_index ` set cfgs"
    and "i \<notin> set object_prototype_keys"
  shows "getESFields this (Some i) = Inr NoIndex"
proof -
  from getESFields_forEach_keys [OF assms(2,3,4), of "[]"] obtain res where
    r: "getESFields_forEach this cfgs [] = Inr res" "fst ` set res = cfg_index ` set cfgs"
    by auto
  from r(2) assms(5) have "map_of res i = None"
    by (simp add: map_of_eq_None_iff)
  with assms(6) have "js_get res i = Absent"
    by (simp add: js_get_Absent_iff)
  then show ?thesis
    using assms(1) r(1) by (simp add: getESFields_def)
qed

theorem getESFields_unknown_index_undefined_witness:
  "indices (config example_es) = Some [\<lparr>cfg_index = ''idx'', cfg_type = ''subject''\<rparr>]
   \<and> ''other'' \<notin> cfg_index ` set [\<lparr>cfg_index = ''idx'', cfg_type = ''subject''\<rparr>]
   \<and> ''other'' \<notin> set object_prototype_keys
   \<and> getESFields example_es (Some ''other'') = Inr NoIndex"
proof -
  have 1: "indices (config example_es) = Some [\<lparr>cfg_index = ''idx'', cfg_type = ''subject''\<rparr>]"
    by (simp add: example_es_def)
  have 2: "fieldTypes example_es =
             Some [(''idx'', [(''gender'', Some ''keyword''), (''age'', Some ''long'')])]"
    by (simp add: example_es_def)
  have 3: "\<forall>c\<in>set [\<lparr>cfg_index = ''idx'', cfg_type = ''subject''\<rparr>].
             map_of [(''idx'', [(''gender'', Some ''keyword''), (''age'', Some ''long'')])]
               (cfg_index c) \<noteq> None"
    by simp
  have 4: "\<forall>c\<in>set [\<lparr>cfg_index = ''idx'', cfg_type = ''subject''\<rparr>]. cfg_index c \<noteq> proto_key"
    by (simp add: proto_key_def)
  have 5: "''other'' \<notin> cfg_index ` set [\<lparr>cfg_index = ''idx'', cfg_type = ''subject''\<rparr>]"
    by simp
  have 6: "''other'' \<notin> set object_prototype_keys"
    by (simp add: object_prototype_keys_def)
  from getESFields_unknown_index_undefined [OF 1 2 3 4 5 6] 1 5 6 show ?thesis
    by simp
qed

text \<open>
  Claim C6, as stated, fails: for an index with no registered array field
  \<open>isArrayField\<close> returns \<open>undefined\<close>, which is not the boolean \<open>false\<close>.
\<close>

theorem isArrayField_counterexample:
  "isArrayField example_es ''idx'' ''gender'' = Inr JSUndefined
   \<and> isArrayField example_es ''idx'' ''gender'' \<noteq> Inr (JSBool False)"
  by (simp add: isArrayField_def example_es_def js_get_def object_prototype_keys_def)

text \<open>
  Claim C6, amended. Once the array fields are loaded, and for an index name that has
  registered array fields or is not the name of a property of \<open>Object.prototype\<close>,
  \<open>isArrayField\<close> returns a value that is truthy exactly when the field is
  registered as an array field of the index; the value is \<open>undefined\<close> exactly when
  the index has no registered array field, and a boolean otherwise.
\<close>

theorem isArrayField_truthy_iff_registered:
  assumes "arrayFields this = Some af"
    and "map_of af i = None \<longrightarrow> i \<notin> set object_prototype_keys"
  shows "\<exists>v. isArrayField this i f = Inr v
           \<and> (truthy v \<longleftrightarrow> (\<exists>fs. map_of af i = Some fs \<and> f \<in> set fs))
           \<and> (v = JSUndefined \<longleftrightarrow> map_of af i = None)"
  using assms
  by (cases "map_of af i") (simp_all add: isArrayField_def js_get_def truthy_def)

theorem isArrayField_truthy_iff_registered_witness:
  "arrayFields (example_es\<lparr>arrayFields := Some [(''idx'', [''visits''])]\<rparr>) =
     Some [(''idx'', [''visits''])]
   \<and> (\<exists>v. isArrayField (example_es\<lparr>arrayFields := Some [(''idx'', [''visits''])]\<rparr>)
             ''idx'' ''gender'' = Inr v \<and> \<not> truthy v \<and> v \<noteq> JSUndefined)"
  using isArrayField_truthy_iff_registered
     [where this = "example_es\<lparr>arrayFields := Some [(''idx'', [''visits''])]\<rparr>"
        and af = "[(''idx'', [''visits''])]" and i = "''idx''" and f = "''gender''"]
  by auto

section \<open>Bulk export\<close>

lemma scroll_loop_start:
  "scroll_loop eng p None None totalData batchSize w =
     (case first_batch eng p w of
        (Inl e, w') \<Rightarrow> Some (Inl e, w')
      | (Inr b, w') \<Rightarrow>
          scroll_loop eng p (Some b) (scroll_id b)
            (totalData @ map hit_source (hits_hits b)) (length (hits_hits b)) w')"
  by (subst scroll_loop.simps) simp

lemma scroll_loop_next:
  "0 < batchSize \<Longrightarrow>
   scroll_loop eng p currentBatch (Some sid) totalData batchSize w =
     (case next_batch eng sid w of
        (Inl e, w') \<Rightarrow> Some (Inl e, w')
      | (Inr b, w') \<Rightarrow>
          scroll_loop eng p (Some b) (scroll_id b)
            (totalData @ map hit_source (hits_hits b)) (length (hits_hits b)) w')"
  by (subst scroll_loop.simps) simp

lemma scroll_loop_stop:
  "scroll_loop eng p (Some b) scrollID totalData 0 w = Some (Inr (totalData, scrollID), w)"
  by (subst scroll_loop.simps) simp

lemma script_next_batch_hits:
  "next_batch (script_engine c n) sid (Inr (sid', hs) # rest, lg) =
     (Inr \<lparr>scroll_id = Some sid', hits_total = n, hits_hits = hs\<rparr>,
      (rest, lg @ [Scroll sid ''1m'']))"
  by (simp add: next_batch_def client_scroll_def script_engine_def script_reply_def)

lemma script_next_batch_end:
  "next_batch (script_engine c n) sid ([], lg) =
     (Inr \<lparr>scroll_id = Some c, hits_total = n, hits_hits = []\<rparr>,
      ([], lg @ [Scroll sid ''1m'']))"
  by (simp add: next_batch_def client_scroll_def script_engine_def script_reply_def)

lemma script_next_batch_fail:
  "next_batch (script_engine c n) sid (Inl msg # rest, lg) =
     (Inl (ClientError msg), (rest, lg @ [Scroll sid ''1m'']))"
  by (simp add: next_batch_def client_scroll_def script_engine_def script_reply_def)

lemma script_first_batch_hits:
  "first_batch (script_engine c n) p (Inr (sid', hs) # rest, lg) =
     (Inr \<lparr>scroll_id = Some sid', hits_total = n, hits_hits = hs\<rparr>,
      (rest, lg @ [Search p]))"
  by (simp add: first_batch_def client_search_def script_engine_def script_reply_def)

lemma script_first_batch_end:
  "first_batch (script_engine c n) p ([], lg) =
     (Inr \<lparr>scroll_id = Some c, hits_total = n, hits_hits = []\<rparr>,
      ([], lg @ [Search p]))"
  by (simp add: first_batch_def client_search_def script_engine_def script_reply_def)

lemma script_clearScroll:
  "client_clearScroll (script_engine c n) sid (s, l) = (Inr (), (s, l @ [ClearScroll sid]))"
  by (simp add: client_clearScroll_def script_engine_def)

text \<open>
  The loop after a non-empty batch, against the scripted engine with only non-empty
  batches left: it scrolls once per batch left and once more for the empty batch.
\<close>

lemma script_scroll_loop:
  assumes "\<forall>b\<in>set bs. snd b \<noteq> []" and "0 < k"
  shows "scroll_loop (script_engine c n) p cb (Some sid) acc k (map Inr bs, lg) =
           Some (Inr (acc @ map hit_source (concat (map snd bs)), Some c),
                 ([], lg @ map (\<lambda>s. Scroll s ''1m'') (sid # map fst bs)))"
  using assms
proof (induction bs arbitrary: cb sid acc k lg)
  case Nil
  then show ?case
    by (simp add: scroll_loop_next script_next_batch_end scroll_loop_stop)
next
  case (Cons b bs)
  obtain sid' hs where b: "b = (sid', hs)" by (cases b)
  from Cons.prems b have hs: "0 < length hs" by simp
  from Cons.prems have rest: "\<forall>b\<in>set bs. snd b \<noteq> []" by simp
  have "scroll_loop (script_engine c n) p cb (Some sid) acc k (map Inr (b # bs), lg) =
        scroll_loop (script_engine c n) p
          (Some \<lparr>scroll_id = Some sid', hits_total = n, hits_hits = hs\<rparr>) (Some sid')
          (acc @ map hit_source hs) (length hs) (map Inr bs, lg @ [Scroll sid ''1m''])"
    using Cons.prems(2) by (simp add: scroll_loop_next b script_next_batch_hits)
  also have "\<dots> =
      Some (Inr ((acc @ map hit_source hs) @ map hit_source (concat (map snd bs)), Some c),
            ([], (lg @ [Scroll sid ''1m'']) @ map (\<lambda>s. Scroll s ''1m'') (sid' # map fst bs)))"
    by (rule Cons.IH [OF rest hs])
  finally show ?case by (simp add: b)
qed

lemma script_scroll_loop_start:
  assumes "\<forall>b\<in>set bs. snd b \<noteq> []"
  shows "scroll_loop (script_engine c n) p None None [] 0 (map Inr bs, lg) =
           Some (Inr (map hit_source (concat (map snd bs)), Some c),
                 ([], lg @ Search p # map (\<lambda>b. Scroll (fst b) ''1m'') bs))"
proof (cases bs)
  case Nil
  then show ?thesis
    by (simp add: scroll_loop_start script_first_batch_end scroll_loop_stop)
next
  case (Cons b bs')
  obtain sid' hs where b: "b = (sid', hs)" by (cases b)
  from assms Cons b have hs: "0 < length hs" by simp
  from assms Cons have rest: "\<forall>b\<in>set bs'. snd b \<noteq> []" by simp
  have "scroll_loop (script_engine c n) p None None [] 0 (map Inr bs, lg) =
        scroll_loop (script_engine c n) p
          (Some \<lparr>scroll_id = Some sid', hits_total = n, hits_hits = hs\<rparr>) (Some sid')
          (map hit_source hs) (length hs) (map Inr bs', lg @ [Search p])"
    by (simp add: Cons b scroll_loop_start script_first_batch_hits)
  also have "\<dots> =
      Some (Inr (map hit_source hs @ map hit_source (concat (map snd bs')), Some c),
            ([], (lg @ [Search p]) @ map (\<lambda>s. Scroll s ''1m'') (sid' # map fst bs')))"
    by (rule script_scroll_loop [OF rest hs])
  finally show ?thesis by (simp add: Cons b comp_def)
qed

text \<open>
  Claim C2. Against an engine that serves a result set in the non-empty batches
  \<open>bs\<close> (each with its cursor id) and then an empty batch, a \<open>scrollQuery\<close> call that
  passes validation returns: its result is the \<open>_source\<close> of every hit of every
  batch, in the engine's order, so exactly as many documents as the result set has,
  none twice and none missing. The calls it issues are the search, one scroll per
  batch (the last one fetching the empty batch) and then a single \<open>clearScroll\<close>.
\<close>

theorem scrollQuery_returns_every_document:
  assumes "\<not> falsy esIndex" and "\<not> falsy esType"
    and "getESFields this esIndex = Inr r" and "known_fields r = Inr known"
    and "difference (sa_fields a) known = []"
    and "client E = script_engine c n"
    and "\<forall>b\<in>set bs. snd b \<noteq> []"
  shows "scrollQuery E this esIndex esType a (map Inr bs, lg) =
           Some (Inr (map hit_source (concat (map snd bs))),
                 ([], lg @ Search (scroll_search_params E esIndex esType a)
                           # map (\<lambda>b. Scroll (fst b) ''1m'') bs
                           @ [ClearScroll (Some c)]))"
  unfolding scrollQuery_def
  using assms(1-5)
  by (simp add: assms(6) script_scroll_loop_start [OF assms(7)] script_clearScroll)

theorem scrollQuery_returns_every_document_witness:
  "scrollQuery example_env example_es (Some ''idx'') (Some ''subject'')
     \<lparr>sa_filter = None, sa_fields = Some [''gender''], sa_sort = None\<rparr>
     (map Inr [(''c1'', [\<lparr>hit_id = ''1'', hit_source = ''doc1''\<rparr>,
                         \<lparr>hit_id = ''2'', hit_source = ''doc2''\<rparr>]),
               (''c2'', [\<lparr>hit_id = ''3'', hit_source = ''doc3''\<rparr>])], []) =
   Some (Inr [''doc1'', ''doc2'', ''doc3''],
         ([], [Search (scroll_search_params example_env (Some ''idx'') (Some ''subject'')
                         \<lparr>sa_filter = None, sa_fields = Some [''gender''], sa_sort = None\<rparr>),
               Scroll ''c1'' ''1m'', Scroll ''c2'' ''1m'', ClearScroll (Some ''c0'')]))"
  using scrollQuery_returns_every_document
          [where E = example_env and this = example_es
             and esIndex = "Some ''idx''" and esType = "Some ''subject''"
             and a = "\<lparr>sa_filter = None, sa_fields = Some [''gender''], sa_sort = None\<rparr>"
             and r = "OneIndex \<lparr>if_index = ''idx'', if_type = ''subject'',
                                 if_fields = [''gender'', ''age'']\<rparr>"
             and known = "[''gender'', ''age'']" and c = "''c0''" and n = 3 and lg = "[]"
             and bs = "[(''c1'', [\<lparr>hit_id = ''1'', hit_source = ''doc1''\<rparr>,
                                  \<lparr>hit_id = ''2'', hit_source = ''doc2''\<rparr>]),
                        (''c2'', [\<lparr>hit_id = ''3'', hit_source = ''doc3''\<rparr>])]"]
  by (simp add: falsy_def example_getESFields known_fields_def difference_def example_client)

text \<open>
  Claim C3 fails on the code: the cursor is released on normal completion only. Here
  the first search opens the cursor \<open>c1\<close> with one hit and the scroll that follows is
  rejected: \<open>scrollQuery\<close> ends with that rejection and the calls issued are the
  search and the scroll, with no \<open>clearScroll\<close>.
\<close>

theorem scrollQuery_failed_scroll_leaves_cursor:
  "scrollQuery example_env example_es (Some ''idx'') (Some ''subject'')
     \<lparr>sa_filter = None, sa_fields = Some [''gender''], sa_sort = None\<rparr>
     ([Inr (''c1'', [\<lparr>hit_id = ''1'', hit_source = ''doc1''\<rparr>]), Inl ''scroll failed''], []) =
   Some (Inl (ClientError ''scroll failed''),
         ([], [Search (scroll_search_params example_env (Some ''idx'') (Some ''subject'')
                         \<lparr>sa_filter = None, sa_fields = Some [''gender''], sa_sort = None\<rparr>),
               Scroll ''c1'' ''1m'']))"
  by (simp add: scrollQuery_def falsy_def example_getESFields known_fields_def difference_def
        example_client scroll_loop_start script_first_batch_hits scroll_loop_next
        script_next_batch_fail)

lemma join_names:
  "f \<in> set xs \<Longrightarrow> \<exists>pre post. q @ join (q @ m @ q) xs @ q = pre @ q @ f @ q @ post"
proof (induction "q @ m @ q" xs rule: join.induct)
  case 1
  then show ?case by simp
next
  case (2 x)
  then have "q @ join (q @ m @ q) [x] @ q = [] @ q @ f @ q @ []" by simp
  then show ?case by blast
next
  case (3 x y ys)
  show ?case
  proof (cases "f = x")
    case True
    then have "q @ join (q @ m @ q) (x # y # ys) @ q =
               [] @ q @ f @ q @ (m @ q @ join (q @ m @ q) (y # ys) @ q)" by simp
    then show ?thesis by blast
  next
    case False
    with 3 obtain pre post where
      "q @ join (q @ m @ q) (y # ys) @ q = pre @ q @ f @ q @ post" by auto
    then have "q @ join (q @ m @ q) (x # y # ys) @ q =
               (q @ x @ q @ m @ pre) @ q @ f @ q @ post" by simp
    then show ?thesis by blast
  qed
qed

lemma invalid_fields_msg_names:
  assumes "f \<in> set bad"
  shows "\<exists>pre post. invalid_fields_msg bad = pre @ dquote @ f @ dquote @ post"
proof -
  from join_names [OF assms, of dquote "'', ''"] obtain pre post where
    e: "dquote @ join (dquote @ '', '' @ dquote) bad @ dquote = pre @ dquote @ f @ dquote @ post"
    by blast
  have "invalid_fields_msg bad =
          ''Invalid fields: '' @ dquote @ join (dquote @ '', '' @ dquote) bad @ dquote"
    by (simp add: invalid_fields_msg_def dquote_def)
  then have "invalid_fields_msg bad = (''Invalid fields: '' @ pre) @ dquote @ f @ dquote @ post"
    using e by simp
  then show ?thesis by blast
qed

text \<open>
  Claim C5. A \<open>scrollQuery\<close> call with an index and a type name, on an index whose
  fields are known, that asks for one or more fields which are not among them fails
  with the \<open>CodedError\<close> 400 whose message lists all these fields, each between
  double quotes; the state is returned as it was, so no call reached the engine.
\<close>

theorem scrollQuery_rejects_invalid_fields:
  assumes "\<not> falsy esIndex" and "\<not> falsy esType"
    and "getESFields this esIndex = Inr (OneIndex x)"
    and "sa_fields a = Some fs"
    and "bad = filter (\<lambda>f. f \<notin> set (if_fields x)) fs"
    and "bad \<noteq> []"
  shows "scrollQuery E this esIndex esType a w =
           Some (Inl (CodedError 400 (invalid_fields_msg bad)), w)
         \<and> (\<forall>f\<in>set fs. f \<notin> set (if_fields x) \<longrightarrow>
               (\<exists>pre post. invalid_fields_msg bad = pre @ dquote @ f @ dquote @ post))"
proof
  show "scrollQuery E this esIndex esType a w =
           Some (Inl (CodedError 400 (invalid_fields_msg bad)), w)"
    using assms by (simp add: scrollQuery_def known_fields_def difference_def)
  show "\<forall>f\<in>set fs. f \<notin> set (if_fields x) \<longrightarrow>
               (\<exists>pre post. invalid_fields_msg bad = pre @ dquote @ f @ dquote @ post)"
    using invalid_fields_msg_names [of _ bad] assms(5) by simp
qed

theorem scrollQuery_rejects_invalid_fields_witness:
  "[''height'', ''weight''] = filter (\<lambda>f. f \<notin> set [''gender'', ''age''])
                                 [''height'', ''gender'', ''weight'']
   \<and> scrollQuery example_env example_es (Some ''idx'') (Some ''subject'')
        \<lparr>sa_filter = None, sa_fields = Some [''height'', ''gender'', ''weight''],
         sa_sort = None\<rparr> ([], []) =
      Some (Inl (CodedError 400 (invalid_fields_msg [''height'', ''weight''])), ([], []))
   \<and> invalid_fields_msg [''height'', ''weight''] =
        ''Invalid fields: '' @ dquote @ ''height'' @ dquote @ '', '' @ dquote @ ''weight'' @ dquote"
  using scrollQuery_rejects_invalid_fields
          [where E = example_env and this = example_es
             and esIndex = "Some ''idx''" and esType = "Some ''subject''"
             and a = "\<lparr>sa_filter = None, sa_fields = Some [''height'', ''gender'', ''weight''],
                        sa_sort = None\<rparr>"
             and x = "\<lparr>if_index = ''idx'', if_type = ''subject'',
                        if_fields = [''gender'', ''age'']\<rparr>"
             and fs = "[''height'', ''gender'', ''weight'']"
             and bad = "[''height'', ''weight'']" and w = "([], [])"]
  by (simp add: falsy_def example_getESFields invalid_fields_msg_def dquote_def)

section \<open>Initialization\<close>

text \<open>
  Claim C4 fails on the code for the empty list: the guard of
  \<open>_getMappingsForAllIndices\<close> lets an empty \<open>config.indices\<close> through, no mapping
  is fetched, and \<open>initialize\<close> completes with empty field types and array fields.
\<close>

theorem initialize_empty_indices_succeeds:
  "getMappingsForAllIndices
     (script_engine ''c0'' 0 :: ((string + string \<times> string hit list) list, string, string) engine)
     empty_indices_es ([], []) = (Inr [], ([], []))
   \<and> initialize
     (script_engine ''c0'' 0 :: ((string + string \<times> string hit list) list, string, string) engine)
     (\<lambda>d. None) (\<lambda>k f. False) empty_indices_es ([], []) =
       (Inr (), empty_indices_es\<lparr>fieldTypes := Some [], arrayFields := Some []\<rparr>, ([], []))"
  by (simp add: initialize_def getMappingsForAllIndices_def getArrayFieldsFromConfigIndex_def
        not_indices_def indices_strict_eq_0_def empty_indices_es_def)

section \<open>The tier-access middleware\<close>

lemma fold_set_keys:
  "\<forall>x\<in>set items. kf x \<noteq> proto_key \<Longrightarrow>
   fst ` set (fold (\<lambda>item. js_set (kf item) (vf item)) items m) =
     kf ` set items \<union> fst ` set m"
  by (induction items arbitrary: m) (auto simp add: js_set_keys)

lemma fold_set_distinct:
  "distinct (map fst m) \<Longrightarrow>
   distinct (map fst (fold (\<lambda>item. js_set (kf item) (vf item)) items m))"
  by (induction items arbitrary: m) (simp_all add: distinct_js_set)

lemma fold_set_other:
  "k \<notin> kf ` set items \<Longrightarrow>
   map_of (fold (\<lambda>item. js_set (kf item) (vf item)) items m) k = map_of m k"
  by (induction items arbitrary: m) (simp_all add: map_of_js_set_other)

lemma fold_set_lookup:
  assumes "c \<in> set items" and "\<forall>c'\<in>set items. kf c' = kf c \<longrightarrow> vf c' = vf c"
    and "kf c \<noteq> proto_key"
  shows "map_of (fold (\<lambda>item. js_set (kf item) (vf item)) items m) (kf c) = Some (vf c)"
  using assms
proof (induction items arbitrary: m c)
  case Nil
  then show ?case by simp
next
  case (Cons x xs)
  show ?case
  proof (cases "kf c \<in> kf ` set xs")
    case True
    then obtain c' where c': "c' \<in> set xs" "kf c' = kf c" by auto
    with Cons.prems have v: "vf c' = vf c" by simp
    from Cons.prems c' have "\<forall>d\<in>set xs. kf d = kf c' \<longrightarrow> vf d = vf c'"
      by (simp add: v)
    moreover from Cons.prems c' have "kf c' \<noteq> proto_key" by simp
    ultimately have
      "map_of (fold (\<lambda>item. js_set (kf item) (vf item)) xs (js_set (kf x) (vf x) m)) (kf c') =
         Some (vf c')"
      by (rule Cons.IH [OF c'(1)])
    then show ?thesis by (simp add: c'(2) v)
  next
    case False
    with Cons.prems have "c = x" by auto
    with False Cons.prems(3) show ?thesis
      by (simp add: fold_set_other map_of_js_set)
  qed
qed

lemma fold_type_mappings_step:
  "fold (type_mappings_step R) items (q, a, t) =
     (fold (\<lambda>item. js_set (cfg_type item)
              (tierAccessResolver R \<lparr>opt_isRawDataQuery = Some True, opt_esType = cfg_type item,
                                     opt_esIndex = cfg_index item\<rparr>)) items q,
      fold (\<lambda>item. js_set (cfg_type item)
              (tierAccessResolver R \<lparr>opt_isRawDataQuery = None, opt_esType = cfg_type item,
                                     opt_esIndex = cfg_index item\<rparr>)) items a,
      fold (\<lambda>item. js_set (firstLetterUpperCase R (cfg_type item) @ ''Aggregation'')
              [(''_totalCount'', hideNumberResolver R True True)]) items t)"
  by (induction items arbitrary: q a t) (simp_all add: type_mappings_step_def)

lemma spread_lookup:
  "distinct (map fst t) \<Longrightarrow>
   map_of (fold (\<lambda>(k, v) obj. js_define k v obj) t base) = map_of base ++ map_of t"
proof (induction t arbitrary: base)
  case Nil
  then show ?case by simp
next
  case (Cons x t)
  obtain k v where x: "x = (k, v)" by (cases x)
  from Cons.prems x have k: "map_of t k = None"
    by (simp add: map_of_eq_None_iff)
  from Cons.prems have "distinct (map fst t)" by simp
  from Cons.IH [OF this, of "js_define k v base"]
  have "map_of (fold (\<lambda>(k, v) obj. js_define k v obj) (x # t) base) =
        map_of (js_define k v base) ++ map_of t"
    by (simp add: x)
  also have "\<dots> = (map_of base)(k \<mapsto> v) ++ map_of t"
    by (simp only: map_of_js_define)
  also have "\<dots> = map_of base ++ map_of (x # t)"
    using k by (auto simp add: x map_add_def fun_eq_iff split: option.splits)
  finally show ?case .
qed

lemma spread_copy:
  "distinct (map fst t) \<Longrightarrow>
   map_of (fold (\<lambda>(k, v) obj. js_define k v obj) t []) = map_of t"
  by (simp add: spread_lookup)

lemma object_lookups:
  assumes "distinct (map fst t)"
    and "mw = js_define kS vS (js_define kN vN
                (fold (\<lambda>(k, v) obj. js_define k v obj) t
                   (js_define kA a (js_define kQ q []))))"
  shows "kQ \<noteq> kA \<Longrightarrow> kQ \<noteq> kN \<Longrightarrow> kQ \<noteq> kS \<Longrightarrow> map_of t kQ = None \<Longrightarrow> map_of mw kQ = Some q"
    and "kA \<noteq> kN \<Longrightarrow> kA \<noteq> kS \<Longrightarrow> map_of t kA = None \<Longrightarrow> map_of mw kA = Some a"
    and "k \<noteq> kN \<Longrightarrow> k \<noteq> kS \<Longrightarrow> map_of t k = Some v \<Longrightarrow> map_of mw k = Some v"
    and "kN \<noteq> kS \<Longrightarrow> map_of mw kN = Some vN"
    and "map_of mw kS = Some vS"
  unfolding assms(2)
  by (simp_all add: map_of_js_define spread_lookup [OF assms(1)] map_add_def)

lemma aggregation_key_neq:
  "s @ ''Aggregation'' \<noteq> ''Query''"
  "s @ ''Aggregation'' \<noteq> ''HistogramForNumber''"
  "s @ ''Aggregation'' \<noteq> ''HistogramForString''"
  "s @ ''Aggregation'' \<noteq> proto_key"
proof -
  have l: "last (s @ ''Aggregation'') = CHR ''n''" by simp
  show "s @ ''Aggregation'' \<noteq> ''Query''"
  proof
    assume "s @ ''Aggregation'' = ''Query''"
    then have "last (s @ ''Aggregation'') = last ''Query''" by (rule arg_cong)
    with l show False by simp
  qed
  show "s @ ''Aggregation'' \<noteq> ''HistogramForNumber''"
  proof
    assume "s @ ''Aggregation'' = ''HistogramForNumber''"
    then have "last (s @ ''Aggregation'') = last ''HistogramForNumber''" by (rule arg_cong)
    with l show False by simp
  qed
  show "s @ ''Aggregation'' \<noteq> ''HistogramForString''"
  proof
    assume "s @ ''Aggregation'' = ''HistogramForString''"
    then have "last (s @ ''Aggregation'') = last ''HistogramForString''" by (rule arg_cong)
    with l show False by simp
  qed
  show "s @ ''Aggregation'' \<noteq> proto_key"
  proof
    assume "s @ ''Aggregation'' = proto_key"
    then have "last (s @ ''Aggregation'') = last proto_key" by (rule arg_cong)
    with l show False by (simp add: proto_key_def)
  qed
qed

lemma example_firstLetterUpperCase:
  "firstLetterUpperCase example_resolvers ''subject'' = ''Subject''"
  by code_simp

lemma example_keys_no_index:
  "array_index ''subject'' = None" "array_index ''SubjectAggregation'' = None"
  "array_index ''Query'' = None" "array_index ''Aggregation'' = None"
  "array_index ''HistogramForNumber'' = None" "array_index ''HistogramForString'' = None"
  by (simp_all add: array_index_def is_digit_def)

lemma example_resolvers_sel:
  "tierAccessResolver example_resolvers = TierAccess"
  "hideNumberResolver example_resolvers = HideNumber"
  by (simp_all add: example_resolvers_def)

text \<open>
  Claim C9, as stated, fails: when two configured indices declare the same type,
  the second assignment replaces the first, and \<open>Query\<close> and \<open>Aggregation\<close> hold for
  that type the resolvers of the second index only; the first index has no guard.
\<close>

theorem tierAccessMiddleware_shared_type_counterexample:
  "tierAccessMiddleware example_resolvers shared_type_config =
     Inr [(''Query'',
             [(''subject'', TierAccess \<lparr>opt_isRawDataQuery = Some True, opt_esType = ''subject'',
                                         opt_esIndex = ''subject_v2''\<rparr>)]),
          (''Aggregation'',
             [(''subject'', TierAccess \<lparr>opt_isRawDataQuery = None, opt_esType = ''subject'',
                                         opt_esIndex = ''subject_v2''\<rparr>)]),
          (''SubjectAggregation'', [(''_totalCount'', HideNumber True True)]),
          (''HistogramForNumber'', [(''histogram'', HideNumber False True)]),
          (''HistogramForString'', [(''histogram'', HideNumber False True)])]"
  by (simp add: tierAccessMiddleware_def shared_type_config_def type_mappings_step_def
        example_firstLetterUpperCase example_resolvers_sel js_set_def js_define_def
        proto_key_def example_keys_no_index)

text \<open>
  Claim C9, amended. The middleware is a value computed from the configuration alone,
  so it is built once and takes no request. In a configuration where no type is
  named \<open>__proto__\<close> and every type has a non-empty upper-cased name, for every
  configured item of type \<open>T\<close> whose type is declared for no other index:
  \<open>Query[T]\<close> is the raw-data tier-access resolver of the item's type and index,
  \<open>Aggregation[T]\<close> is its aggregation tier-access resolver, the key
  \<open>firstLetterUpperCase(T) + 'Aggregation'\<close> holds the \<open>_totalCount\<close> hiding
  resolver, and \<open>HistogramForNumber\<close> and \<open>HistogramForString\<close> hold the
  \<open>histogram\<close> hiding resolver.
\<close>

theorem tierAccessMiddleware_guards:
  assumes "indices cfg = Some items"
    and "item \<in> set items"
    and "\<forall>c\<in>set items. cfg_type c = cfg_type item \<longrightarrow> cfg_index c = cfg_index item"
    and "\<forall>c\<in>set items. cfg_type c \<noteq> proto_key"
    and "\<forall>c\<in>set items. firstLetterUpperCase R (cfg_type c) \<noteq> []"
  shows "\<exists>mw q a.
           tierAccessMiddleware R cfg = Inr mw
           \<and> js_get mw ''Query'' = Own q
           \<and> js_get q (cfg_type item) =
               Own (tierAccessResolver R
                      \<lparr>opt_isRawDataQuery = Some True, opt_esType = cfg_type item,
                       opt_esIndex = cfg_index item\<rparr>)
           \<and> js_get mw ''Aggregation'' = Own a
           \<and> js_get a (cfg_type item) =
               Own (tierAccessResolver R
                      \<lparr>opt_isRawDataQuery = None, opt_esType = cfg_type item,
                       opt_esIndex = cfg_index item\<rparr>)
           \<and> js_get mw (firstLetterUpperCase R (cfg_type item) @ ''Aggregation'') =
               Own [(''_totalCount'', hideNumberResolver R True True)]
           \<and> js_get mw ''HistogramForNumber'' =
               Own [(''histogram'', hideNumberResolver R False True)]
           \<and> js_get mw ''HistogramForString'' =
               Own [(''histogram'', hideNumberResolver R False True)]"
proof -
  let ?kq = "cfg_type"
  let ?vq = "\<lambda>item. tierAccessResolver R
               \<lparr>opt_isRawDataQuery = Some True, opt_esType = cfg_type item,
                opt_esIndex = cfg_index item\<rparr>"
  let ?va = "\<lambda>item. tierAccessResolver R
               \<lparr>opt_isRawDataQuery = None, opt_esType = cfg_type item,
                opt_esIndex = cfg_index item\<rparr>"
  let ?kt = "\<lambda>item. firstLetterUpperCase R (cfg_type item) @ ''Aggregation''"
  let ?vt = "\<lambda>item::index_cfg. [(''_totalCount'', hideNumberResolver R True True)]"
  let ?q = "fold (\<lambda>item. js_set (?kq item) (?vq item)) items []"
  let ?a = "fold (\<lambda>item. js_set (?kq item) (?va item)) items []"
  let ?t = "fold (\<lambda>item. js_set (?kt item) (?vt item)) items []"
  let ?q' = "fold (\<lambda>(k, v) obj. js_define k v obj) ?q []"
  let ?a' = "fold (\<lambda>(k, v) obj. js_define k v obj) ?a []"
  let ?mw = "js_define ''HistogramForString''
               [(''histogram'', hideNumberResolver R False True)]
            (js_define ''HistogramForNumber''
               [(''histogram'', hideNumberResolver R False True)]
            (fold (\<lambda>(k, v) obj. js_define k v obj) ?t
               (js_define ''Aggregation'' ?a' (js_define ''Query'' ?q' []))))"
  have np: "cfg_type item \<noteq> proto_key"
    using assms(2,4) by simp
  have sameq: "\<forall>c'\<in>set items. cfg_type c' = cfg_type item \<longrightarrow> ?vq c' = ?vq item"
    using assms(3) by simp
  have samea: "\<forall>c'\<in>set items. cfg_type c' = cfg_type item \<longrightarrow> ?va c' = ?va item"
    using assms(3) by simp
  have mw: "tierAccessMiddleware R cfg = Inr ?mw"
    by (simp add: tierAccessMiddleware_def assms(1) fold_type_mappings_step)
  have dt: "distinct (map fst ?t)"
    by (rule fold_set_distinct) simp
  have dq: "distinct (map fst ?q)"
    by (rule fold_set_distinct) simp
  have da: "distinct (map fst ?a)"
    by (rule fold_set_distinct) simp
  have keys: "fst ` set ?t = ?kt ` set items"
    by (simp add: fold_set_keys aggregation_key_neq(4))
  have tq: "map_of ?t ''Query'' = None"
    unfolding map_of_eq_None_iff keys using aggregation_key_neq(1) by auto
  have ta: "map_of ?t ''Aggregation'' = None"
    unfolding map_of_eq_None_iff keys using assms(5) by auto
  have tk: "map_of ?t (?kt item) = Some (?vt item)"
    by (rule fold_set_lookup [where kf = ?kt and vf = ?vt, OF assms(2)])
       (simp_all add: aggregation_key_neq(4))
  have q: "map_of ?q (cfg_type item) = Some (?vq item)"
    by (rule fold_set_lookup [where kf = ?kq and vf = ?vq, OF assms(2) sameq np])
  have a: "map_of ?a (cfg_type item) = Some (?va item)"
    by (rule fold_set_lookup [where kf = ?kq and vf = ?va, OF assms(2) samea np])
  have q': "map_of ?q' (cfg_type item) = Some (?vq item)"
    by (simp only: spread_copy [OF dq] q)
  have a': "map_of ?a' (cfg_type item) = Some (?va item)"
    by (simp only: spread_copy [OF da] a)
  have ne: "''Query'' \<noteq> ''Aggregation''" "''Query'' \<noteq> ''HistogramForNumber''"
    "''Query'' \<noteq> ''HistogramForString''" "''Aggregation'' \<noteq> ''HistogramForNumber''"
    "''Aggregation'' \<noteq> ''HistogramForString''"
    "''HistogramForNumber'' \<noteq> ''HistogramForString''"
    by simp_all
  note ol = object_lookups [OF dt refl, where kS = "''HistogramForString''"
      and kN = "''HistogramForNumber''" and kA = "''Aggregation''" and kQ = "''Query''"
      and vS = "[(''histogram'', hideNumberResolver R False True)]"
      and vN = "[(''histogram'', hideNumberResolver R False True)]" and a = ?a' and q = ?q']
  have m1: "map_of ?mw ''Query'' = Some ?q'"
    by (rule ol(1) [OF ne(1) ne(2) ne(3) tq])
  have m2: "map_of ?mw ''Aggregation'' = Some ?a'"
    by (rule ol(2) [OF ne(4) ne(5) ta])
  have m3: "map_of ?mw (?kt item) = Some (?vt item)"
    by (rule ol(3) [OF aggregation_key_neq(2) aggregation_key_neq(3) tk])
  have m4: "map_of ?mw ''HistogramForNumber'' =
              Some [(''histogram'', hideNumberResolver R False True)]"
    by (rule ol(4) [OF ne(6)])
  have m5: "map_of ?mw ''HistogramForString'' =
              Some [(''histogram'', hideNumberResolver R False True)]"
    by (rule ol(5))
  from mw m1 q' m2 a' m3 m4 m5 show ?thesis
    unfolding js_get_Own_iff by blast
qed

theorem tierAccessMiddleware_guards_witness:
  "''subject'' \<noteq> proto_key
   \<and> firstLetterUpperCase example_resolvers ''subject'' = ''Subject''
   \<and> (\<exists>mw q a.
         tierAccessMiddleware example_resolvers (config example_es) = Inr mw
         \<and> js_get mw ''Query'' = Own q
         \<and> js_get q ''subject'' =
             Own (TierAccess \<lparr>opt_isRawDataQuery = Some True, opt_esType = ''subject'',
                               opt_esIndex = ''idx''\<rparr>)
         \<and> js_get mw ''Aggregation'' = Own a
         \<and> js_get a ''subject'' =
             Own (TierAccess \<lparr>opt_isRawDataQuery = None, opt_esType = ''subject'',
                               opt_esIndex = ''idx''\<rparr>)
         \<and> js_get mw ''SubjectAggregation'' = Own [(''_totalCount'', HideNumber True True)]
         \<and> js_get mw ''HistogramForNumber'' = Own [(''histogram'', HideNumber False True)]
         \<and> js_get mw ''HistogramForString'' = Own [(''histogram'', HideNumber False True)])"
proof -
  have i: "indices (config example_es) = Some [\<lparr>cfg_index = ''idx'', cfg_type = ''subject''\<rparr>]"
    by (simp add: example_es_def)
  have m: "\<lparr>cfg_index = ''idx'', cfg_type = ''subject''\<rparr>
             \<in> set [\<lparr>cfg_index = ''idx'', cfg_type = ''subject''\<rparr>]"
    by simp
  have s: "\<forall>c\<in>set [\<lparr>cfg_index = ''idx'', cfg_type = ''subject''\<rparr>].
             cfg_type c = cfg_type \<lparr>cfg_index = ''idx'', cfg_type = ''subject''\<rparr> \<longrightarrow>
             cfg_index c = cfg_index \<lparr>cfg_index = ''idx'', cfg_type = ''subject''\<rparr>"
    by simp
  have p: "\<forall>c\<in>set [\<lparr>cfg_index = ''idx'', cfg_type = ''subject''\<rparr>]. cfg_type c \<noteq> proto_key"
    by (simp add: proto_key_def)
  have u: "\<forall>c\<in>set [\<lparr>cfg_index = ''idx'', cfg_type = ''subject''\<rparr>].
             firstLetterUpperCase example_resolvers (cfg_type c) \<noteq> []"
    by (simp add: example_firstLetterUpperCase)
  have n: "''subject'' \<noteq> proto_key"
    by (simp add: proto_key_def)
  from tierAccessMiddleware_guards [OF i m s p u] n show ?thesis
    by (simp add: example_firstLetterUpperCase example_resolvers_sel)
qed

end
